theory Spec2Isabelle
  imports
    Complex_Main
    "HOL-Library.Monad_Syntax"
    "HOL-Library.Char_ord"
    "HOL-Library.List_Lexorder"
begin

section \<open>JavaScript numbers\<close>

text \<open>
  The code computes with JavaScript numbers. A number is modelled as a real (\<open>Fin\<close>) or
  one of the three special values the code produces and tests for: \<open>Infinity\<close>,
  \<open>-Infinity\<close> (division by zero, \<open>Math.min()\<close> of no arguments) and \<open>NaN\<close>
  (\<open>0/0\<close>, \<open>isNaN\<close> in \<open>getNumericColumns\<close>). The special values follow IEEE 754.
  Arithmetic on finite values is exact: rounding, overflow to infinity and the sign of zero
  are not modelled.
\<close>

datatype number = Fin real | PInf | NInf | NaN

instantiation number :: "{plus, uminus, minus, times, inverse, abs, ord}"
begin

fun plus_number :: "number \<Rightarrow> number \<Rightarrow> number" where
  "Fin a + Fin b = Fin (a + b)"
| "NaN + _ = NaN"
| "_ + NaN = NaN"
| "PInf + NInf = NaN"
| "NInf + PInf = NaN"
| "PInf + _ = PInf"
| "_ + PInf = PInf"
| "NInf + _ = NInf"
| "_ + NInf = NInf"

fun uminus_number :: "number \<Rightarrow> number" where
  "- Fin a = Fin (- a)"
| "- PInf = NInf"
| "- NInf = PInf"
| "- NaN = NaN"

definition minus_number :: "number \<Rightarrow> number \<Rightarrow> number" where
  "minus_number a b = a + (- b)"

fun times_number :: "number \<Rightarrow> number \<Rightarrow> number" where
  "Fin a * Fin b = Fin (a * b)"
| "NaN * _ = NaN"
| "_ * NaN = NaN"
| "PInf * Fin b = (if b = 0 then NaN else if 0 < b then PInf else NInf)"
| "NInf * Fin b = (if b = 0 then NaN else if 0 < b then NInf else PInf)"
| "Fin a * PInf = (if a = 0 then NaN else if 0 < a then PInf else NInf)"
| "Fin a * NInf = (if a = 0 then NaN else if 0 < a then NInf else PInf)"
| "PInf * PInf = PInf"
| "PInf * NInf = NInf"
| "NInf * PInf = NInf"
| "NInf * NInf = PInf"

fun divide_number :: "number \<Rightarrow> number \<Rightarrow> number" where
  "divide_number (Fin a) (Fin b) =
     (if b = 0 then (if a = 0 then NaN else if 0 < a then PInf else NInf) else Fin (a / b))"
| "divide_number NaN _ = NaN"
| "divide_number _ NaN = NaN"
| "divide_number (Fin a) PInf = Fin 0"
| "divide_number (Fin a) NInf = Fin 0"
| "divide_number PInf (Fin b) = (if 0 \<le> b then PInf else NInf)"
| "divide_number NInf (Fin b) = (if 0 \<le> b then NInf else PInf)"
| "divide_number PInf PInf = NaN"
| "divide_number PInf NInf = NaN"
| "divide_number NInf PInf = NaN"
| "divide_number NInf NInf = NaN"

definition inverse_number :: "number \<Rightarrow> number" where
  "inverse_number a = Fin 1 div a"

fun abs_number :: "number \<Rightarrow> number" where
  "\<bar>Fin a\<bar> = Fin \<bar>a\<bar>"
| "\<bar>PInf\<bar> = PInf"
| "\<bar>NInf\<bar> = PInf"
| "\<bar>NaN\<bar> = NaN"

text \<open>The comparisons \<open><\<close> and \<open><=\<close> of JavaScript: false whenever an operand is NaN.\<close>

fun less_number :: "number \<Rightarrow> number \<Rightarrow> bool" where
  "Fin a < Fin b \<longleftrightarrow> a < b"
| "NInf < Fin _ \<longleftrightarrow> True"
| "NInf < PInf \<longleftrightarrow> True"
| "Fin _ < PInf \<longleftrightarrow> True"
| "(_::number) < _ \<longleftrightarrow> False"

fun less_eq_number :: "number \<Rightarrow> number \<Rightarrow> bool" where
  "Fin a \<le> Fin b \<longleftrightarrow> a \<le> b"
| "NInf \<le> Fin _ \<longleftrightarrow> True"
| "NInf \<le> PInf \<longleftrightarrow> True"
| "Fin _ \<le> PInf \<longleftrightarrow> True"
| "NInf \<le> NInf \<longleftrightarrow> True"
| "PInf \<le> PInf \<longleftrightarrow> True"
| "(_::number) \<le> _ \<longleftrightarrow> False"

instance ..

end

text \<open>\<open>a === b\<close> on numbers: NaN is not equal to itself.\<close>

definition strict_eq :: "number \<Rightarrow> number \<Rightarrow> bool" where
  "strict_eq a b \<longleftrightarrow> a = b \<and> a \<noteq> NaN"

text \<open>\<open>isNaN(x)\<close> for a value of number type.\<close>

definition isNaN :: "number \<Rightarrow> bool" where
  "isNaN x \<longleftrightarrow> x = NaN"

text \<open>A length or an index as a number.\<close>

definition num :: "nat \<Rightarrow> number" where
  "num n = Fin (real n)"

text \<open>\<open>x || d\<close> for a number \<open>x\<close>: zero and NaN are falsy.\<close>

definition or_else :: "number \<Rightarrow> number \<Rightarrow> number" where
  "or_else x d = (if x = Fin 0 \<or> x = NaN then d else x)"

subsection \<open>The Math object\<close>

fun Math_sqrt :: "number \<Rightarrow> number" where
  "Math_sqrt (Fin a) = (if a < 0 then NaN else Fin (sqrt a))"
| "Math_sqrt PInf = PInf"
| "Math_sqrt NInf = NaN"
| "Math_sqrt NaN = NaN"

fun Math_floor :: "number \<Rightarrow> number" where
  "Math_floor (Fin a) = Fin (of_int \<lfloor>a\<rfloor>)"
| "Math_floor x = x"

fun Math_log2 :: "number \<Rightarrow> number" where
  "Math_log2 (Fin a) = (if a < 0 then NaN else if a = 0 then NInf else Fin (log 2 a))"
| "Math_log2 PInf = PInf"
| "Math_log2 NInf = NaN"
| "Math_log2 NaN = NaN"

text \<open>\<open>Math.pow(x, k)\<close> for the exponents the code uses (2, 3, 4).\<close>

primrec Math_pow :: "number \<Rightarrow> nat \<Rightarrow> number" where
  "Math_pow x 0 = Fin 1"
| "Math_pow x (Suc k) = x * Math_pow x k"

text \<open>\<open>Math.max(a, b)\<close>, \<open>Math.min(a, b)\<close>: NaN when an argument is NaN.\<close>

definition Math_max :: "number \<Rightarrow> number \<Rightarrow> number" where
  "Math_max a b = (if a = NaN \<or> b = NaN then NaN else if a < b then b else a)"

definition Math_min :: "number \<Rightarrow> number \<Rightarrow> number" where
  "Math_min a b = (if a = NaN \<or> b = NaN then NaN else if b < a then b else a)"

text \<open>\<open>Math.max(...xs)\<close>, \<open>Math.min(...xs)\<close>: \<open>-Infinity\<close> and \<open>Infinity\<close> on no arguments.\<close>

definition Math_max_list :: "number list \<Rightarrow> number" where
  "Math_max_list xs = foldl Math_max NInf xs"

definition Math_min_list :: "number list \<Rightarrow> number" where
  "Math_min_list xs = foldl Math_min PInf xs"

text \<open>
  \<open>xs[i]\<close> read as a number: a read past the end yields \<open>undefined\<close>, which is NaN in
  arithmetic.
\<close>

definition num_at :: "number list \<Rightarrow> nat \<Rightarrow> number" where
  "num_at xs i = (if i < length xs then xs ! i else NaN)"

text \<open>
  \<open>xs.sort(cmp)\<close> on a copy: the sort is stable; an element moves before another only
  when the comparator says so with a positive number. (On comparators that are consistent,
  as \<open>(a, b) => a - b\<close> is on numbers without NaN, this is the sorted order.)
\<close>

fun insort_cmp :: "('a \<Rightarrow> 'a \<Rightarrow> number) \<Rightarrow> 'a \<Rightarrow> 'a list \<Rightarrow> 'a list" where
  "insort_cmp c x [] = [x]"
| "insort_cmp c x (y # ys) = (if Fin 0 < c y x then x # y # ys else y # insort_cmp c x ys)"

definition Array_sort :: "('a \<Rightarrow> 'a \<Rightarrow> number) \<Rightarrow> 'a list \<Rightarrow> 'a list" where
  "Array_sort c xs = foldl (\<lambda>acc x. insort_cmp c x acc) [] xs"

section \<open>Strings and objects\<close>

text \<open>Decimal digits of a non-negative integer, as a template literal prints it.\<close>

definition digit_char :: "nat \<Rightarrow> char" where
  "digit_char d = char_of (48 + d)"

fun string_of_nat :: "nat \<Rightarrow> string" where
  "string_of_nat n =
     (if n < 10 then [digit_char n] else string_of_nat (n div 10) @ [digit_char (n mod 10)])"

declare string_of_nat.simps [simp del]

definition is_digit :: "char \<Rightarrow> bool" where
  "is_digit c \<longleftrightarrow> 48 \<le> (of_char c :: nat) \<and> (of_char c :: nat) \<le> 57"

definition nat_of_digits :: "string \<Rightarrow> nat" where
  "nat_of_digits s = foldl (\<lambda>acc c. 10 * acc + ((of_char c :: nat) - 48)) 0 s"

text \<open>\<open>xs.join(sep)\<close> on strings.\<close>

fun join :: "string \<Rightarrow> string list \<Rightarrow> string" where
  "join sep [] = []"
| "join sep [x] = x"
| "join sep (x # y # ys) = x @ sep @ join sep (y # ys)"

text \<open>
  An object used as a dictionary (\<open>Record<string, T>\<close>) is the list of its own properties
  in creation order, keys distinct. \<open>Object.keys\<close>, \<open>Object.values\<close> and
  \<open>Object.entries\<close> enumerate array-index keys first, in ascending numeric order, then
  the other keys in creation order.
\<close>

type_synonym 'a obj = "(string \<times> 'a) list"

definition obj_get :: "'a obj \<Rightarrow> string \<Rightarrow> 'a option" where
  "obj_get ob k = map_of ob k"

definition obj_set :: "string \<Rightarrow> 'a \<Rightarrow> 'a obj \<Rightarrow> 'a obj" where
  "obj_set k v ob =
     (if k \<in> fst ` set ob then map (\<lambda>(k', v'). if k' = k then (k', v) else (k', v')) ob
      else ob @ [(k, v)])"

definition is_array_index :: "string \<Rightarrow> bool" where
  "is_array_index s \<longleftrightarrow>
     s \<noteq> [] \<and> list_all is_digit s \<and> (s = ''0'' \<or> hd s \<noteq> CHR ''0'') \<and>
     nat_of_digits s < 2 ^ 32 - 1"

definition Object_entries :: "'a obj \<Rightarrow> (string \<times> 'a) list" where
  "Object_entries ob =
     sort_key (\<lambda>(k, v). nat_of_digits k) (filter (\<lambda>(k, v). is_array_index k) ob) @
     filter (\<lambda>(k, v). \<not> is_array_index k) ob"

definition Object_keys :: "'a obj \<Rightarrow> string list" where
  "Object_keys ob = map fst (Object_entries ob)"

definition Object_values :: "'a obj \<Rightarrow> 'a list" where
  "Object_values ob = map snd (Object_entries ob)"

section \<open>Data model (types/index.ts)\<close>

datatype jsvalue = VNum number | VStr string | VBool bool

datatype json = JNum number | JStr string | JBool bool | JArr "json list" | JObj "(string \<times> json) list"

text \<open>
  \<open>DataPoint\<close>: the fields \<open>id\<close>, \<open>timestamp\<close> and \<open>values\<close> (prefixed, since
  \<open>id\<close> is a constant of HOL); the optional \<open>metadata\<close> is never read by the code
  modelled here and is left out.
\<close>

record DataPoint =
  dp_id :: string
  dp_timestamp :: number
  dp_values :: "jsvalue obj"

text \<open>\<open>DataPattern\<close>; the field \<open>type\<close> is \<open>pattern_type\<close>.\<close>

record DataPattern =
  pattern_type :: string
  confidence :: number
  description :: string
  parameters :: "json obj"
  affectedColumns :: "string list"

text \<open>\<open>typeof v === 'number' && !isNaN(v)\<close> for \<open>v = point.values[key]\<close>
  (\<open>undefined\<close> when the key is absent).\<close>

definition is_numeric_value :: "jsvalue option \<Rightarrow> bool" where
  "is_numeric_value v = (case v of Some (VNum n) \<Rightarrow> \<not> isNaN n | _ \<Rightarrow> False)"

text \<open>\<open>point.values[column] as number\<close>: the cast does nothing at run time. On the columns
  that \<open>getNumericColumns\<close> returns the value is a number; any other value would enter
  the arithmetic as NaN.\<close>

definition as_number :: "jsvalue option \<Rightarrow> number" where
  "as_number v = (case v of Some (VNum n) \<Rightarrow> n | _ \<Rightarrow> NaN)"

definition column_values :: "DataPoint list \<Rightarrow> string \<Rightarrow> number list" where
  "column_values data column = map (\<lambda>point. as_number (obj_get (dp_values point) column)) data"

section \<open>Numeric columns\<close>

text \<open>\<open>PatternFingerprintGenerator.getNumericColumns\<close> (PatternFingerprint.ts).\<close>

definition getNumericColumns :: "DataPoint list \<Rightarrow> string list" where
  "getNumericColumns data =
     (case data of
        [] \<Rightarrow> []
      | firstRow # _ \<Rightarrow>
          filter (\<lambda>key. list_all (\<lambda>point. is_numeric_value (obj_get (dp_values point) key)) data)
            (Object_keys (dp_values firstRow)))"

text \<open>\<open>PatternDetector.getNumericColumns\<close> (the base detector).\<close>

definition PatternDetector_getNumericColumns :: "DataPoint list \<Rightarrow> string list" where
  "PatternDetector_getNumericColumns data =
     (case data of
        [] \<Rightarrow> []
      | firstRow # _ \<Rightarrow>
          filter (\<lambda>key. list_all (\<lambda>point. is_numeric_value (obj_get (dp_values point) key)) data)
            (Object_keys (dp_values firstRow)))"

text \<open>\<open>AdvancedPatternDetector.getNumericColumns\<close>, which overrides the base method.\<close>

definition AdvancedPatternDetector_getNumericColumns :: "DataPoint list \<Rightarrow> string list" where
  "AdvancedPatternDetector_getNumericColumns data =
     (case data of
        [] \<Rightarrow> []
      | firstRow # _ \<Rightarrow>
          filter (\<lambda>key. list_all (\<lambda>point. is_numeric_value (obj_get (dp_values point) key)) data)
            (Object_keys (dp_values firstRow)))"

section \<open>External libraries\<close>

text \<open>
  The functions of \<open>simple-statistics\<close> (\<open>ss\<close>), of \<open>crypto\<close> and the conversions of
  numbers to text are not part of the repository. They are parameters of the model: each
  is a function of its arguments, and a statistics function may throw (\<open>None\<close>), as
  \<open>ss.mean\<close> does on an empty sample. A regression line \<open>{m, b}\<close> is the pair of its slope
  and intercept.
\<close>

record lib =
  ss_mean :: "number list \<Rightarrow> number option"
  ss_standardDeviation :: "number list \<Rightarrow> number option"
  ss_variance :: "number list \<Rightarrow> number option"
  ss_quantile :: "number list \<Rightarrow> number \<Rightarrow> number option"
  ss_sampleCorrelation :: "number list \<Rightarrow> number list \<Rightarrow> number option"
  ss_linearRegression :: "(number \<times> number) list \<Rightarrow> (number \<times> number) option"
  ss_rSquared :: "(number \<times> number) list \<Rightarrow> number \<times> number \<Rightarrow> number option"
  sha256_hex :: "string \<Rightarrow> string"
  md5_hex :: "string \<Rightarrow> string"
  JSON_stringify :: "json \<Rightarrow> string"
  String_of_number :: "number \<Rightarrow> string"
  toFixed :: "number \<Rightarrow> nat \<Rightarrow> string"

text \<open>Loops whose body may throw: the first exception ends the loop.\<close>

fun foldM :: "('b \<Rightarrow> 'a \<Rightarrow> 'b option) \<Rightarrow> 'b \<Rightarrow> 'a list \<Rightarrow> 'b option" where
  "foldM f acc [] = Some acc"
| "foldM f acc (x # xs) = (case f acc x of None \<Rightarrow> None | Some acc' \<Rightarrow> foldM f acc' xs)"

fun mapM :: "('a \<Rightarrow> 'b option) \<Rightarrow> 'a list \<Rightarrow> 'b list option" where
  "mapM f [] = Some []"
| "mapM f (x # xs) =
     (case f x of None \<Rightarrow> None
      | Some y \<Rightarrow> (case mapM f xs of None \<Rightarrow> None | Some ys \<Rightarrow> Some (y # ys)))"

section \<open>Fingerprints (PatternFingerprint.ts)\<close>

datatype distribution_type = Normal | Uniform | Exponential | Bimodal | Unknown

record StatisticalFingerprint =
  mean :: number
  std :: number
  skewness :: number
  kurtosis :: number
  entropy :: number
  quantiles :: "number list"
  distribution_type :: distribution_type

text \<open>Lags and positions are loop counters: natural numbers.\<close>

record TemporalFingerprint =
  seasonality_strength :: number
  trend_strength :: number
  autocorrelation_lags :: "nat list"
  dominant_frequency :: number
  periodicity_score :: number
  stationarity_score :: number

record RelationalFingerprint =
  correlation_matrix_hash :: string
  principal_components :: "number list"
  dependency_strength :: number
  mutual_information :: "number obj"
  network_centrality :: "number obj"

text \<open>An element \<open>{start, end, severity}\<close> of \<open>temporal_anomaly_clusters\<close>.\<close>

record AnomalyCluster =
  cl_start :: nat
  cl_end :: nat
  cl_severity :: number

record AnomalyFingerprint =
  outlier_positions :: "nat list"
  outlier_severity :: "number list"
  anomaly_density :: number
  temporal_anomaly_clusters :: "AnomalyCluster list"
  anomaly_signature :: string

text \<open>
  \<open>PatternFingerprint\<close>; its fields \<open>id\<close> and \<open>timestamp\<close> are \<open>fp_id\<close> and
  \<open>fp_timestamp\<close>. The timestamp is a reading of \<open>Date.now()\<close>, a number of
  milliseconds.
\<close>

record PatternFingerprint =
  fp_id :: string
  fp_timestamp :: nat
  data_hash :: string
  statistical :: "StatisticalFingerprint obj"
  temporal :: TemporalFingerprint
  relational :: RelationalFingerprint
  anomaly :: AnomalyFingerprint
  pattern_types :: "string list"
  confidence_scores :: "number obj"
  similarity_vector :: "number list"

subsection \<open>Statistical signature\<close>

definition calculateSkewness :: "number list \<Rightarrow> number \<Rightarrow> number \<Rightarrow> number" where
  "calculateSkewness vals m s =
     (if strict_eq s (Fin 0) then Fin 0
      else
        let n = num (length vals);
            sumCubes = foldl (\<lambda>sum val. sum + Math_pow ((val - m) / s) 3) (Fin 0) vals
        in (n / ((n - Fin 1) * (n - Fin 2))) * sumCubes)"

definition calculateKurtosis :: "number list \<Rightarrow> number \<Rightarrow> number \<Rightarrow> number" where
  "calculateKurtosis vals m s =
     (if strict_eq s (Fin 0) then Fin 0
      else
        let n = num (length vals);
            sumFourths = foldl (\<lambda>sum val. sum + Math_pow ((val - m) / s) 4) (Fin 0) vals;
            kurt = ((n * (n + Fin 1)) / ((n - Fin 1) * (n - Fin 2) * (n - Fin 3))) * sumFourths
        in kurt - (Fin 3 * (n - Fin 1) * (n - Fin 1)) / ((n - Fin 2) * (n - Fin 3)))"

text \<open>
  \<open>binCounts[binIndex]++\<close>: an index that is not one of the array's (NaN, an infinity)
  leaves the array elements as they are.
\<close>

definition bump_bin :: "number \<Rightarrow> number list \<Rightarrow> number list" where
  "bump_bin binIndex binCounts =
     (case binIndex of
        Fin r \<Rightarrow>
          (if of_int \<lfloor>r\<rfloor> = r \<and> 0 \<le> r \<and> nat \<lfloor>r\<rfloor> < length binCounts
           then binCounts[nat \<lfloor>r\<rfloor> := binCounts ! nat \<lfloor>r\<rfloor> + Fin 1]
           else binCounts)
      | _ \<Rightarrow> binCounts)"

definition calculateEntropy :: "number list \<Rightarrow> number" where
  "calculateEntropy vals =
     (let bins = 10;
          mn = Math_min_list vals;
          mx = Math_max_list vals;
          binSize = (mx - mn) / num bins
      in if strict_eq binSize (Fin 0) then Fin 0
         else
           let binCounts =
                 foldl (\<lambda>counts val.
                     bump_bin (Math_min (Math_floor ((val - mn) / binSize)) (num bins - Fin 1)) counts)
                   (replicate bins (Fin 0)) vals
           in foldl (\<lambda>ent count.
                  if Fin 0 < count
                  then (let probability = count / num (length vals)
                        in ent - probability * Math_log2 probability)
                  else ent)
                (Fin 0) binCounts)"

definition detectDistributionType ::
  "number list \<Rightarrow> number \<Rightarrow> number \<Rightarrow> number \<Rightarrow> number \<Rightarrow> distribution_type" where
  "detectDistributionType vals m s skew kurt =
     (if \<bar>skew\<bar> < Fin 0.5 \<and> \<bar>kurt\<bar> < Fin 1 then Normal
      else if \<bar>skew\<bar> < Fin 0.2 \<and> \<bar>kurt + Fin 1.2\<bar> < Fin 0.5 then Uniform
      else if skew > Fin 1 \<and> kurt > Fin 2 then Exponential
      else if kurt < Fin (- 1) then Bimodal
      else Unknown)"

definition generateStatisticalFingerprint :: "lib \<Rightarrow> number list \<Rightarrow> StatisticalFingerprint option" where
  "generateStatisticalFingerprint L vals = do {
     m \<leftarrow> ss_mean L vals;
     s \<leftarrow> ss_standardDeviation L vals;
     let skew = calculateSkewness vals m s;
     let kurt = calculateKurtosis vals m s;
     let ent = calculateEntropy vals;
     let sorted = Array_sort (\<lambda>a b. a - b) vals;
     q1 \<leftarrow> ss_quantile L sorted (Fin 0.25);
     q2 \<leftarrow> ss_quantile L sorted (Fin 0.5);
     q3 \<leftarrow> ss_quantile L sorted (Fin 0.75);
     q4 \<leftarrow> ss_quantile L sorted (Fin 1.0);
     Some \<lparr>mean = m, std = s, skewness = skew, kurtosis = kurt, entropy = ent,
            quantiles = [q1, q2, q3, q4],
            distribution_type = detectDistributionType vals m s skew kurt\<rparr>
   }"

subsection \<open>Temporal signature\<close>

definition autocorrelation :: "lib \<Rightarrow> number list \<Rightarrow> nat \<Rightarrow> number option" where
  "autocorrelation L vals lag =
     (if lag \<ge> length vals then Some (Fin 0)
      else do {
        let n = length vals;
        m \<leftarrow> ss_mean L vals;
        let numerator =
              foldl (\<lambda>acc i. acc + (num_at vals i - m) * (num_at vals (i + lag) - m))
                (Fin 0) [0..<n - lag];
        let denominator =
              foldl (\<lambda>acc i. acc + (num_at vals i - m) * (num_at vals i - m)) (Fin 0) [0..<n];
        Some (if strict_eq denominator (Fin 0) then Fin 0 else numerator / denominator)
      })"

definition calculateSeasonalityStrength :: "lib \<Rightarrow> number list \<Rightarrow> number option" where
  "calculateSeasonalityStrength L vals =
     (if length vals < 24 then Some (Fin 0)
      else
        foldM (\<lambda>maxSeasonality period.
            if num period < num (length vals) / Fin 2
            then do {
              seasonality \<leftarrow> autocorrelation L vals period;
              Some (Math_max maxSeasonality \<bar>seasonality\<bar>)
            }
            else Some maxSeasonality)
          (Fin 0) [7, 12, 24, 30, 365])"

definition calculateTrendStrength :: "lib \<Rightarrow> number list \<Rightarrow> number option" where
  "calculateTrendStrength L vals =
     (if length vals < 3 then Some (Fin 0)
      else do {
        let points = map (\<lambda>i. (num i, num_at vals i)) [0..<length vals];
        regression \<leftarrow> ss_linearRegression L points;
        ss_rSquared L points regression
      })"

definition findSignificantLags :: "lib \<Rightarrow> number list \<Rightarrow> nat list option" where
  "findSignificantLags L vals = do {
     let maxLag = min 50 (length vals div 4);
     significantLags \<leftarrow>
       foldM (\<lambda>lags lag. do {
           c \<leftarrow> autocorrelation L vals lag;
           Some (if \<bar>c\<bar> > Fin 0.3 then lags @ [lag] else lags)
         }) [] [1..<maxLag + 1];
     Some (take 10 significantLags)
   }"

definition findDominantFrequency :: "lib \<Rightarrow> number list \<Rightarrow> number option" where
  "findDominantFrequency L vals = do {
     let maxLag = Math_min (num (length vals) / Fin 2) (Fin 100);
     (maxCorr, dominantPeriod) \<leftarrow>
       foldM (\<lambda>(maxCorr, dominantPeriod) lag. do {
           c \<leftarrow> autocorrelation L vals lag;
           Some (if \<bar>c\<bar> > maxCorr then (\<bar>c\<bar>, lag) else (maxCorr, dominantPeriod))
         }) (Fin 0, 0) (takeWhile (\<lambda>lag. num lag < maxLag) [2..<100]);
     Some (if dominantPeriod > 0 then Fin 1 / num dominantPeriod else Fin 0)
   }"

definition calculatePeriodicityScore :: "lib \<Rightarrow> number list \<Rightarrow> number option" where
  "calculatePeriodicityScore L vals = do {
     significantLags \<leftarrow> findSignificantLags L vals;
     if significantLags = [] then Some (Fin 0)
     else do {
       let spacings =
             map (\<lambda>(lag, prev). num lag - num prev) (zip (tl significantLags) significantLags);
       avgSpacing \<leftarrow> ss_mean L spacings;
       spacingVariance \<leftarrow> ss_variance L spacings;
       Some (if avgSpacing > Fin 0
             then Fin 1 / (Fin 1 + spacingVariance / (avgSpacing * avgSpacing))
             else Fin 0)
     }
   }"

definition calculateStationarityScore :: "lib \<Rightarrow> number list \<Rightarrow> number option" where
  "calculateStationarityScore L vals = do {
     let n = length vals;
     let windowSize = max 10 (n div 10);
     rollingMeans \<leftarrow>
       mapM (\<lambda>i. ss_mean L (take windowSize (drop i vals)))
         (if windowSize \<le> n then [0..<n - windowSize + 1] else []);
     if length rollingMeans < 2 then Some (Fin 1)
     else do {
       meanVariance \<leftarrow> ss_variance L rollingMeans;
       overallMean \<leftarrow> ss_mean L vals;
       Some (Fin 1 / (Fin 1 + meanVariance / (overallMean * overallMean)))
     }
   }"

definition generateTemporalFingerprint ::
  "lib \<Rightarrow> DataPoint list \<Rightarrow> string list \<Rightarrow> TemporalFingerprint option" where
  "generateTemporalFingerprint L data numericColumns =
     (case numericColumns of
        [] \<Rightarrow>
          Some \<lparr>seasonality_strength = Fin 0, trend_strength = Fin 0, autocorrelation_lags = [],
                 dominant_frequency = Fin 0, periodicity_score = Fin 0,
                 stationarity_score = Fin 0\<rparr>
      | column # _ \<Rightarrow> do {
          let vals = column_values data column;
          seasonality \<leftarrow> calculateSeasonalityStrength L vals;
          trend \<leftarrow> calculateTrendStrength L vals;
          lags \<leftarrow> findSignificantLags L vals;
          frequency \<leftarrow> findDominantFrequency L vals;
          periodicity \<leftarrow> calculatePeriodicityScore L vals;
          stationarity \<leftarrow> calculateStationarityScore L vals;
          Some \<lparr>seasonality_strength = seasonality, trend_strength = trend,
                 autocorrelation_lags = lags, dominant_frequency = frequency,
                 periodicity_score = periodicity, stationarity_score = stationarity\<rparr>
        })"

subsection \<open>Relational signature\<close>

definition calculateCorrelationMatrix :: "lib \<Rightarrow> DataPoint list \<Rightarrow> string list \<Rightarrow> number list list" where
  "calculateCorrelationMatrix L data columns =
     map (\<lambda>i.
         map (\<lambda>j.
             if i = j then Fin 1
             else
               (case ss_sampleCorrelation L (column_values data (columns ! i))
                       (column_values data (columns ! j)) of
                  Some r \<Rightarrow> r
                | None \<Rightarrow> Fin 0))
           [0..<length columns])
       [0..<length columns]"

definition hashMatrix :: "lib \<Rightarrow> number list list \<Rightarrow> string" where
  "hashMatrix L matrix =
     (let matrixString = join '';'' (map (\<lambda>row. join '','' (map (\<lambda>val. toFixed L val 3) row)) matrix)
      in take 16 (sha256_hex L matrixString))"

definition calculatePrincipalComponents :: "number list list \<Rightarrow> number list" where
  "calculatePrincipalComponents correlationMatrix =
     map (\<lambda>(row, i). num_at row i) (zip correlationMatrix [0..<length correlationMatrix])"

text \<open>The index pairs \<open>i < j < n\<close> in the order of the two nested loops.\<close>

definition upper_pairs :: "nat \<Rightarrow> (nat \<times> nat) list" where
  "upper_pairs n = concat (map (\<lambda>i. map (\<lambda>j. (i, j)) [i + 1..<n]) [0..<n])"

definition calculateDependencyStrength :: "number list list \<Rightarrow> number" where
  "calculateDependencyStrength correlationMatrix =
     (let n = length correlationMatrix
      in if n < 2 then Fin 0
         else
           let (sumAbsCorr, count) =
                 foldl (\<lambda>(sumAbsCorr, count) (i, j).
                     (sumAbsCorr + \<bar>num_at (correlationMatrix ! i) j\<bar>, count + 1))
                   (Fin 0, 0) (upper_pairs n)
           in if count > (0::nat) then sumAbsCorr / num count else Fin 0)"

definition calculateMutualInformation :: "lib \<Rightarrow> DataPoint list \<Rightarrow> string list \<Rightarrow> number obj option" where
  "calculateMutualInformation L data columns =
     foldM (\<lambda>mutualInfo (i, j). do {
         let col1 = columns ! i;
         let col2 = columns ! j;
         r \<leftarrow> ss_sampleCorrelation L (column_values data col1) (column_values data col2);
         let correlation = \<bar>or_else r (Fin 0)\<bar>;
         Some (obj_set (col1 @ ''-'' @ col2) correlation mutualInfo)
       }) [] (upper_pairs (length columns))"

definition calculateNetworkCentrality :: "number list list \<Rightarrow> string list \<Rightarrow> number obj" where
  "calculateNetworkCentrality correlationMatrix columns =
     foldl (\<lambda>centrality i.
         let row = correlationMatrix ! i;
             degree =
               foldl (\<lambda>sum (corr, j). if i \<noteq> j then sum + \<bar>corr\<bar> else sum) (Fin 0)
                 (zip row [0..<length row])
         in obj_set (columns ! i) (degree / (num (length columns) - Fin 1)) centrality)
       [] [0..<length columns]"

definition generateRelationalFingerprint ::
  "lib \<Rightarrow> DataPoint list \<Rightarrow> string list \<Rightarrow> RelationalFingerprint option" where
  "generateRelationalFingerprint L data numericColumns =
     (if length numericColumns < 2
      then Some \<lparr>correlation_matrix_hash = '''', principal_components = [],
                  dependency_strength = Fin 0, mutual_information = [], network_centrality = []\<rparr>
      else do {
        let correlationMatrix = calculateCorrelationMatrix L data numericColumns;
        let matrix_hash = hashMatrix L correlationMatrix;
        let components = calculatePrincipalComponents correlationMatrix;
        let dependency = calculateDependencyStrength correlationMatrix;
        mutual \<leftarrow> calculateMutualInformation L data numericColumns;
        let centrality = calculateNetworkCentrality correlationMatrix numericColumns;
        Some \<lparr>correlation_matrix_hash = matrix_hash, principal_components = components,
               dependency_strength = dependency, mutual_information = mutual,
               network_centrality = centrality\<rparr>
      })"

subsection \<open>Anomaly signature\<close>

text \<open>The severity that the loop of \<open>generateAnomalyFingerprint\<close> records for an outlier.\<close>

definition outlier_severity_of :: "number \<Rightarrow> number \<Rightarrow> number \<Rightarrow> number \<Rightarrow> number" where
  "outlier_severity_of val lowerBound upperBound iqr =
     Math_max (\<bar>val - lowerBound\<bar> / iqr) (\<bar>val - upperBound\<bar> / iqr)"

text \<open>The loop over the values: positions and severities of the outliers, in order.\<close>

definition scan_outliers ::
  "number list \<Rightarrow> number \<Rightarrow> number \<Rightarrow> number \<Rightarrow> nat list \<times> number list" where
  "scan_outliers vals lowerBound upperBound iqr =
     foldl (\<lambda>(positions, severities) i.
         let val = vals ! i
         in if val < lowerBound \<or> val > upperBound
            then (positions @ [i],
                  severities @ [outlier_severity_of val lowerBound upperBound iqr])
            else (positions, severities))
       ([], []) [0..<length vals]"

definition findAnomalyClusters :: "nat list \<Rightarrow> number list \<Rightarrow> AnomalyCluster list" where
  "findAnomalyClusters positions severities =
     (case positions of
        [] \<Rightarrow> []
      | p0 # _ \<Rightarrow>
          let (clusters, currentCluster) =
                foldl (\<lambda>(clusters, currentCluster) i.
                    if int (positions ! i) - int (cl_end currentCluster) \<le> 5
                    then (clusters,
                          currentCluster\<lparr>cl_end := positions ! i,
                            cl_severity := Math_max (cl_severity currentCluster) (num_at severities i)\<rparr>)
                    else (clusters @ [currentCluster],
                          \<lparr>cl_start = positions ! i, cl_end = positions ! i,
                           cl_severity = num_at severities i\<rparr>))
                  ([], \<lparr>cl_start = p0, cl_end = p0, cl_severity = num_at severities 0\<rparr>)
                  [1..<length positions]
          in filter (\<lambda>cluster. cl_severity cluster > Fin 1.5) (clusters @ [currentCluster]))"

definition createAnomalySignature ::
  "lib \<Rightarrow> nat list \<Rightarrow> number list \<Rightarrow> AnomalyCluster list \<Rightarrow> string option" where
  "createAnomalySignature L positions severities clusters = do {
     avg \<leftarrow> (if length severities > 0 then ss_mean L severities else Some (Fin 0));
     let signature = JObj
           [(''total_anomalies'', JNum (num (length positions))),
            (''max_severity'', JNum (Math_max_list (severities @ [Fin 0]))),
            (''avg_severity'', JNum avg),
            (''cluster_count'', JNum (num (length clusters))),
            (''max_cluster_severity'',
               JNum (if length clusters > 0 then Math_max_list (map cl_severity clusters) else Fin 0))];
     Some (take 12 (md5_hex L (JSON_stringify L signature)))
   }"

definition generateAnomalyFingerprint ::
  "lib \<Rightarrow> DataPoint list \<Rightarrow> string list \<Rightarrow> DataPattern list \<Rightarrow> AnomalyFingerprint option" where
  "generateAnomalyFingerprint L data numericColumns patterns = do {
     (positions, severities, density) \<leftarrow>
       (case numericColumns of
          [] \<Rightarrow> Some ([], [], Fin 0)
        | column # _ \<Rightarrow> do {
            let vals = column_values data column;
            let sorted = Array_sort (\<lambda>a b. a - b) vals;
            q1 \<leftarrow> ss_quantile L sorted (Fin 0.25);
            q3 \<leftarrow> ss_quantile L sorted (Fin 0.75);
            let iqr = q3 - q1;
            let lowerBound = q1 - Fin 1.5 * iqr;
            let upperBound = q3 + Fin 1.5 * iqr;
            let (positions, severities) = scan_outliers vals lowerBound upperBound iqr;
            Some (positions, severities, num (length positions) / num (length vals))
          });
     let clusters = findAnomalyClusters positions severities;
     signature \<leftarrow> createAnomalySignature L positions severities clusters;
     Some \<lparr>outlier_positions = positions, outlier_severity = severities,
            anomaly_density = density, temporal_anomaly_clusters = clusters,
            anomaly_signature = signature\<rparr>
   }"

subsection \<open>Content hash, confidence scores, similarity vector\<close>

text \<open>The text of a field value in \<open>Object.values(point.values).join('|')\<close>.\<close>

definition jsvalue_text :: "lib \<Rightarrow> jsvalue \<Rightarrow> string" where
  "jsvalue_text L v =
     (case v of
        VNum n \<Rightarrow> String_of_number L n
      | VStr s \<Rightarrow> s
      | VBool b \<Rightarrow> (if b then ''true'' else ''false''))"

definition computeDataHash :: "lib \<Rightarrow> DataPoint list \<Rightarrow> string" where
  "computeDataHash L data =
     (let hashData = JObj
            [(''length'', JNum (num (length data))),
             (''columns'',
                JArr (map JStr
                  (case data of [] \<Rightarrow> [] | firstRow # _ \<Rightarrow> sort (Object_keys (dp_values firstRow))))),
             (''sample_checksums'',
                JArr (map (\<lambda>point.
                    JStr (join ''|'' (map (jsvalue_text L) (Object_values (dp_values point)))))
                  (take 10 data)))]
      in take 16 (sha256_hex L (JSON_stringify L hashData)))"

definition extractConfidenceScores :: "DataPattern list \<Rightarrow> number obj" where
  "extractConfidenceScores patterns =
     foldl (\<lambda>scores pattern. obj_set (pattern_type pattern) (confidence pattern) scores) [] patterns"

definition normalize :: "number \<Rightarrow> number \<Rightarrow> number \<Rightarrow> number" where
  "normalize val mn mx = Math_max (Fin 0) (Math_min (Fin 1) ((val - mn) / (mx - mn)))"

definition generateSimilarityVector :: "lib \<Rightarrow> PatternFingerprint \<Rightarrow> number list option" where
  "generateSimilarityVector L fingerprint = do {
     let statistical_features =
           concat (map (\<lambda>(_, stats).
               [normalize (mean stats) (Fin (- 10)) (Fin 10),
                normalize (std stats) (Fin 0) (Fin 10),
                normalize (skewness stats) (Fin (- 3)) (Fin 3),
                normalize (kurtosis stats) (Fin (- 3)) (Fin 3),
                normalize (entropy stats) (Fin 0) (Fin 4)])
             (Object_entries (statistical fingerprint)));
     let temporal_features =
           [seasonality_strength (temporal fingerprint),
            trend_strength (temporal fingerprint),
            periodicity_score (temporal fingerprint),
            stationarity_score (temporal fingerprint)];
     components_mean \<leftarrow>
       (if length (principal_components (relational fingerprint)) > 0
        then ss_mean L (principal_components (relational fingerprint))
        else Some (Fin 0));
     let relational_features = [dependency_strength (relational fingerprint), components_mean];
     severity_mean \<leftarrow>
       (if length (outlier_severity (anomaly fingerprint)) > 0
        then ss_mean L (outlier_severity (anomaly fingerprint))
        else Some (Fin 0));
     let anomaly_features = [anomaly_density (anomaly fingerprint), severity_mean];
     let patternTypes = [''trend'', ''seasonal'', ''correlation'', ''cluster'', ''anomaly''];
     let indicators =
           map (\<lambda>t. if t \<in> set (pattern_types fingerprint) then Fin 1 else Fin 0) patternTypes;
     Some (statistical_features @ temporal_features @ relational_features @ anomaly_features @
           indicators)
   }"

subsection \<open>generateFingerprint\<close>

text \<open>
  \<open>generateFingerprint\<close> reads the clock twice: \<open>now_id\<close> is the value of
  \<open>Date.now()\<close> in the \<open>id\<close>, \<open>now_ts\<close> the value stored as \<open>timestamp\<close>.
\<close>

definition generateFingerprint ::
  "lib \<Rightarrow> nat \<Rightarrow> nat \<Rightarrow> DataPoint list \<Rightarrow> DataPattern list \<Rightarrow> string \<Rightarrow> PatternFingerprint option" where
  "generateFingerprint L now_id now_ts data patterns connectionId = do {
     let dataHash = computeDataHash L data;
     let numericColumns = getNumericColumns data;
     temporal_fp \<leftarrow> generateTemporalFingerprint L data numericColumns;
     relational_fp \<leftarrow> generateRelationalFingerprint L data numericColumns;
     anomaly_fp \<leftarrow> generateAnomalyFingerprint L data numericColumns patterns;
     let fingerprint =
           \<lparr>fp_id = ''fingerprint_'' @ connectionId @ ''_'' @ string_of_nat now_id,
            fp_timestamp = now_ts,
            data_hash = dataHash,
            statistical = [],
            temporal = temporal_fp,
            relational = relational_fp,
            anomaly = anomaly_fp,
            pattern_types = map pattern_type patterns,
            confidence_scores = extractConfidenceScores patterns,
            similarity_vector = []\<rparr>;
     stats \<leftarrow>
       foldM (\<lambda>acc column. do {
           sf \<leftarrow> generateStatisticalFingerprint L (column_values data column);
           Some (obj_set column sf acc)
         }) (statistical fingerprint) numericColumns;
     let fingerprint = fingerprint\<lparr>statistical := stats\<rparr>;
     vector \<leftarrow> generateSimilarityVector L fingerprint;
     Some (fingerprint\<lparr>similarity_vector := vector\<rparr>)
   }"

subsection \<open>calculateSimilarity\<close>

definition calculateSimilarity :: "PatternFingerprint \<Rightarrow> PatternFingerprint \<Rightarrow> number" where
  "calculateSimilarity fingerprint1 fingerprint2 =
     (if length (similarity_vector fingerprint1) \<noteq> length (similarity_vector fingerprint2)
      then Fin 0
      else
        let (dotProduct, norm1, norm2) =
              foldl (\<lambda>(dotProduct, norm1, norm2) i.
                  let v1 = similarity_vector fingerprint1 ! i;
                      v2 = similarity_vector fingerprint2 ! i
                  in (dotProduct + v1 * v2, norm1 + v1 * v1, norm2 + v2 * v2))
                (Fin 0, Fin 0, Fin 0) [0..<length (similarity_vector fingerprint1)];
            denominator = Math_sqrt norm1 * Math_sqrt norm2
        in if strict_eq denominator (Fin 0) then Fin 0 else dotProduct / denominator)"

section \<open>The similarity engine (PatternSimilarityEngine.ts)\<close>

text \<open>
  \<open>storedFingerprints\<close> is a \<open>Map<string, PatternFingerprint>\<close>: its entries in
  insertion order, keys distinct. \<open>set\<close> on a key that is present replaces the value
  where it stands; on a new key it appends an entry.
\<close>

type_synonym store = "(string \<times> PatternFingerprint) list"

definition Map_set :: "string \<Rightarrow> 'a \<Rightarrow> (string \<times> 'a) list \<Rightarrow> (string \<times> 'a) list" where
  "Map_set k v m =
     (if k \<in> fst ` set m then map (\<lambda>(k', v'). if k' = k then (k', v) else (k', v')) m
      else m @ [(k, v)])"

definition Map_values :: "(string \<times> 'a) list \<Rightarrow> 'a list" where
  "Map_values m = map snd m"

record SimilarityMatch =
  fingerprint :: PatternFingerprint
  similarity :: number
  matchingFeatures :: "string list"
  differingFeatures :: "string list"
  match_confidence :: number

text \<open>The result \<open>{overall, matching, differing, confidence}\<close> of
  \<open>calculateDetailedSimilarity\<close>.\<close>

record DetailedSimilarity =
  overall :: number
  matching :: "string list"
  differing :: "string list"
  detail_confidence :: number



text \<open>\<open>xs.reduce((a, b) => a + b)\<close> on a non-empty array.\<close>

definition reduce_sum :: "number list \<Rightarrow> number" where
  "reduce_sum xs = foldl (+) (hd xs) (tl xs)"

definition calculateAvgConfidence :: "PatternFingerprint \<Rightarrow> number" where
  "calculateAvgConfidence fp =
     (let confidences = Object_values (confidence_scores fp)
      in if length confidences > 0 then reduce_sum confidences / num (length confidences)
         else Fin 0.5)"

text \<open>
  Reading a field of \<open>fp.statistical[column]\<close> throws when the column is absent
  (\<open>None\<close>); the columns of the loop are keys of both objects.
\<close>

definition calculateStatisticalSimilarity :: "PatternFingerprint \<Rightarrow> PatternFingerprint \<Rightarrow> number option" where
  "calculateStatisticalSimilarity fp1 fp2 =
     (let columns1 = Object_keys (statistical fp1);
          columns2 = Object_keys (statistical fp2);
          commonColumns = filter (\<lambda>col. col \<in> set columns2) columns1
      in if length commonColumns = 0 then Some (Fin 0)
         else do {
           totalSimilarity \<leftarrow>
             foldM (\<lambda>total column. do {
                 stats1 \<leftarrow> obj_get (statistical fp1) column;
                 stats2 \<leftarrow> obj_get (statistical fp2) column;
                 let meanSim = Fin 1 - \<bar>mean stats1 - mean stats2\<bar> /
                       (\<bar>mean stats1\<bar> + \<bar>mean stats2\<bar> + Fin 1);
                 let stdSim = Fin 1 - \<bar>std stats1 - std stats2\<bar> / (std stats1 + std stats2 + Fin 1);
                 let skewSim = Fin 1 - \<bar>skewness stats1 - skewness stats2\<bar> / Fin 6;
                 let kurtSim = Fin 1 - \<bar>kurtosis stats1 - kurtosis stats2\<bar> / Fin 6;
                 let distributionSim =
                       (if distribution_type stats1 = distribution_type stats2 then Fin 1 else Fin 0.5);
                 let columnSimilarity =
                       (meanSim + stdSim + skewSim + kurtSim + distributionSim) / Fin 5;
                 Some (total + Math_max (Fin 0) columnSimilarity)
               }) (Fin 0) commonColumns;
           Some (totalSimilarity / num (length commonColumns))
         })"

definition calculateTemporalSimilarity :: "PatternFingerprint \<Rightarrow> PatternFingerprint \<Rightarrow> number" where
  "calculateTemporalSimilarity fp1 fp2 =
     (let temp1 = temporal fp1;
          temp2 = temporal fp2;
          seasonSim = Fin 1 - \<bar>seasonality_strength temp1 - seasonality_strength temp2\<bar>;
          trendSim = Fin 1 - \<bar>trend_strength temp1 - trend_strength temp2\<bar>;
          periodSim = Fin 1 - \<bar>periodicity_score temp1 - periodicity_score temp2\<bar>;
          stationarySim = Fin 1 - \<bar>stationarity_score temp1 - stationarity_score temp2\<bar>;
          freqSim =
            (if dominant_frequency temp1 > Fin 0 \<and> dominant_frequency temp2 > Fin 0
             then Fin 1 - \<bar>dominant_frequency temp1 - dominant_frequency temp2\<bar> /
                    Math_max (dominant_frequency temp1) (dominant_frequency temp2)
             else Fin 0.5)
      in (seasonSim + trendSim + periodSim + stationarySim + freqSim) / Fin 5)"

text \<open>\<open>new Set(xs)\<close>: only its size and its members are used.\<close>

definition Set_of :: "string list \<Rightarrow> string list" where
  "Set_of xs = remdups xs"

definition calculateRelationalSimilarity :: "PatternFingerprint \<Rightarrow> PatternFingerprint \<Rightarrow> number" where
  "calculateRelationalSimilarity fp1 fp2 =
     (let rel1 = relational fp1;
          rel2 = relational fp2;
          depSim = Fin 1 - \<bar>dependency_strength rel1 - dependency_strength rel2\<bar>;
          hashSim =
            (if correlation_matrix_hash rel1 = correlation_matrix_hash rel2 then Fin 1 else Fin 0);
          mi1Keys = Set_of (Object_keys (mutual_information rel1));
          mi2Keys = Set_of (Object_keys (mutual_information rel2));
          miOverlap =
            (if length mi1Keys > 0 \<and> length mi2Keys > 0
             then num (length (filter (\<lambda>key. key \<in> set mi2Keys) mi1Keys)) /
                    Math_max (num (length mi1Keys)) (num (length mi2Keys))
             else Fin 0.5)
      in (depSim + hashSim + miOverlap) / Fin 3)"

definition calculateAnomalySimilarity :: "PatternFingerprint \<Rightarrow> PatternFingerprint \<Rightarrow> number" where
  "calculateAnomalySimilarity fp1 fp2 =
     (let anom1 = anomaly fp1;
          anom2 = anomaly fp2;
          densitySim = Fin 1 - \<bar>anomaly_density anom1 - anomaly_density anom2\<bar>;
          avgSev1 =
            (if length (outlier_severity anom1) > 0
             then reduce_sum (outlier_severity anom1) / num (length (outlier_severity anom1))
             else Fin 0);
          avgSev2 =
            (if length (outlier_severity anom2) > 0
             then reduce_sum (outlier_severity anom2) / num (length (outlier_severity anom2))
             else Fin 0);
          severitySim =
            (if avgSev1 > Fin 0 \<or> avgSev2 > Fin 0
             then Fin 1 - \<bar>avgSev1 - avgSev2\<bar> / Math_max (Math_max avgSev1 avgSev2) (Fin 1)
             else Fin 1);
          signatureSim = (if anomaly_signature anom1 = anomaly_signature anom2 then Fin 1 else Fin 0)
      in (densitySim + severitySim + signatureSim) / Fin 3)"

definition calculateDetailedSimilarity :: "PatternFingerprint \<Rightarrow> PatternFingerprint \<Rightarrow> DetailedSimilarity option" where
  "calculateDetailedSimilarity fp1 fp2 = do {
     statSim \<leftarrow> calculateStatisticalSimilarity fp1 fp2;
     let (matching1, differing1) =
           (if statSim > Fin 0.7 then ([''statistical_distribution''], [])
            else ([], [''statistical_distribution'']));
     let tempSim = calculateTemporalSimilarity fp1 fp2;
     let (matching2, differing2) =
           (if tempSim > Fin 0.7 then (matching1 @ [''temporal_patterns''], differing1)
            else (matching1, differing1 @ [''temporal_patterns'']));
     let patterns1 = Set_of (pattern_types fp1);
     let patterns2 = Set_of (pattern_types fp2);
     let commonPatterns = filter (\<lambda>p. p \<in> set patterns2) patterns1;
     let (matching3, differing3) =
           (if length commonPatterns > 0 then (matching2 @ [''pattern_types''], differing2)
            else (matching2, differing2 @ [''pattern_types'']));
     let relSim = calculateRelationalSimilarity fp1 fp2;
     let (matching4, differing4) =
           (if relSim > Fin 0.7 then (matching3 @ [''correlations''], differing3)
            else (matching3, differing3 @ [''correlations'']));
     let anomSim = calculateAnomalySimilarity fp1 fp2;
     let (matching5, differing5) =
           (if anomSim > Fin 0.7 then (matching4 @ [''anomaly_patterns''], differing4)
            else (matching4, differing4 @ [''anomaly_patterns'']));
     let overall_sim = (statSim + tempSim + relSim + anomSim) / Fin 4;
     let conf = Math_min (calculateAvgConfidence fp1) (calculateAvgConfidence fp2);
     Some \<lparr>overall = overall_sim, matching = matching5, differing = differing5,
            detail_confidence = conf\<rparr>
   }"

text \<open>
  \<open>findSimilarPatterns\<close> changes the store and returns the matches, or throws
  (\<open>None\<close>). The store is returned in both cases: an exception of
  \<open>generateFingerprint\<close> leaves it as it was.
\<close>

definition findSimilarPatterns ::
  "lib \<Rightarrow> nat \<Rightarrow> nat \<Rightarrow> store \<Rightarrow> DataPoint list \<Rightarrow> DataPattern list \<Rightarrow> string \<Rightarrow> number
     \<Rightarrow> store \<times> SimilarityMatch list option" where
  "findSimilarPatterns L now_id now_ts storedFingerprints targetData targetPatterns connectionId
       threshold =
     (case generateFingerprint L now_id now_ts targetData targetPatterns connectionId of
        None \<Rightarrow> (storedFingerprints, None)
      | Some targetFingerprint \<Rightarrow>
          let stored = Map_set (fp_id targetFingerprint) targetFingerprint storedFingerprints;
              candidates = filter (\<lambda>fp. fp_id fp \<noteq> fp_id targetFingerprint) (Map_values stored);
              matches =
                foldM (\<lambda>matches candidate. do {
                    sim \<leftarrow> calculateDetailedSimilarity targetFingerprint candidate;
                    Some (if overall sim \<ge> threshold
                          then matches @
                            [\<lparr>fingerprint = candidate, similarity = overall sim,
                              matchingFeatures = matching sim, differingFeatures = differing sim,
                              match_confidence = detail_confidence sim\<rparr>]
                          else matches)
                  }) [] candidates
          in (stored, map_option (Array_sort (\<lambda>a b. similarity b - similarity a)) matches))"





definition storeFingerprint :: "store \<Rightarrow> PatternFingerprint \<Rightarrow> store" where
  "storeFingerprint storedFingerprints fp = Map_set (fp_id fp) fp storedFingerprints"

definition getStoredFingerprints :: "store \<Rightarrow> PatternFingerprint list" where
  "getStoredFingerprints storedFingerprints = Map_values storedFingerprints"

definition clearStoredFingerprints :: "store \<Rightarrow> store" where
  "clearStoredFingerprints storedFingerprints = []"

text \<open>\<open>Object.fromEntries(map)\<close> creates the properties in the order of the map.\<close>

definition exportFingerprints :: "store \<Rightarrow> PatternFingerprint obj" where
  "exportFingerprints storedFingerprints =
     foldl (\<lambda>ob (k, v). obj_set k v ob) [] storedFingerprints"

definition importFingerprints :: "store \<Rightarrow> PatternFingerprint obj \<Rightarrow> store" where
  "importFingerprints storedFingerprints fingerprints =
     foldl (\<lambda>m (k, fp). Map_set k fp m) storedFingerprints (Object_entries fingerprints)"

section \<open>The pattern detectors (NaturalLanguageProcessor.ts, AdvancedPatternDetector.ts)\<close>

text \<open>
  \<open>AdvancedPattern\<close> extends \<open>DataPattern\<close>; its \<open>metadata\<close> is a bag like
  \<open>parameters\<close>.
\<close>

record AdvancedPattern = DataPattern +
  algorithm :: string
  statistical_significance :: number
  effect_size :: number
  metadata :: "json obj"

text \<open>
  The detectors are modelled in full where they decide what happens on a dataset without
  numeric columns: every guard, every loop over the columns or over the pairs of columns, and
  every \<open>try\<close>/\<open>catch\<close> around a loop body. The numerical work inside a loop body of the
  advanced detector, and the k-means clustering of the base detector (which draws its initial
  centroids from \<open>Math.random()\<close>), are parameters: a body takes the dataset and the column
  (or the columns) it works on and returns the patterns it pushes, or throws (\<open>None\<close>).
  What is proved for every value of these parameters holds for the bodies in the repository.
\<close>

record helpers =
  kMeansClustering :: "number list list \<Rightarrow> nat \<Rightarrow> (nat \<times> number \<times> number list) option"
  detectDistributionPatterns_body :: "DataPoint list \<Rightarrow> string \<Rightarrow> AdvancedPattern list option"
  detectNonLinearCorrelations_body ::
    "DataPoint list \<Rightarrow> string \<Rightarrow> string \<Rightarrow> AdvancedPattern list option"
  detectHierarchicalClusters_body :: "DataPoint list \<Rightarrow> string list \<Rightarrow> AdvancedPattern list"
  detectFrequencyPatterns_body :: "DataPoint list \<Rightarrow> string \<Rightarrow> AdvancedPattern list option"
  detectAutogressivePatterns_body :: "DataPoint list \<Rightarrow> string \<Rightarrow> AdvancedPattern list option"
  detectCyclicalPatterns_body :: "DataPoint list \<Rightarrow> string \<Rightarrow> AdvancedPattern list option"
  detectOutlierClusters_body :: "DataPoint list \<Rightarrow> string list \<Rightarrow> AdvancedPattern list option"

subsection \<open>The base detector\<close>

definition createMatrix :: "DataPoint list \<Rightarrow> string list \<Rightarrow> number list list" where
  "createMatrix data columns =
     map (\<lambda>point. map (\<lambda>col. as_number (obj_get (dp_values point) col)) columns) data"

text \<open>A failing regression is caught and the column skipped.\<close>

definition detectTrends :: "lib \<Rightarrow> DataPoint list \<Rightarrow> string list \<Rightarrow> DataPattern list" where
  "detectTrends L data numericColumns =
     concat (map (\<lambda>column.
         let vals = column_values data column;
             points = map (\<lambda>i. (num i, num_at vals i)) [0..<length vals]
         in case ss_linearRegression L points of
              None \<Rightarrow> []
            | Some (slope, intercept) \<Rightarrow>
                (case ss_rSquared L points (slope, intercept) of
                   None \<Rightarrow> []
                 | Some rSquared \<Rightarrow>
                     if \<bar>slope\<bar> > Fin 0.1 \<and> rSquared > Fin 0.5
                     then [\<lparr>pattern_type = ''trend'',
                            confidence = rSquared,
                            description =
                              (if slope > Fin 0 then ''Increasing'' else ''Decreasing'') @
                              '' trend in '' @ column,
                            parameters =
                              [(''slope'', JNum slope), (''rSquared'', JNum rSquared),
                               (''direction'',
                                  JStr (if slope > Fin 0 then ''increasing'' else ''decreasing''))],
                            affectedColumns = [column]\<rparr>]
                     else []))
       numericColumns)"

definition detectAnomalies :: "lib \<Rightarrow> DataPoint list \<Rightarrow> string list \<Rightarrow> DataPattern list option" where
  "detectAnomalies L data numericColumns =
     map_option concat (mapM (\<lambda>column. do {
         let vals = column_values data column;
         m \<leftarrow> ss_mean L vals;
         stdDev \<leftarrow> ss_standardDeviation L vals;
         let threshold = Fin 2;
         let anomalies =
               filter (\<lambda>point. \<bar>as_number (obj_get (dp_values point) column) - m\<bar> > threshold * stdDev)
                 data;
         Some (if length anomalies > 0
               then [\<lparr>pattern_type = ''anomaly'',
                      confidence =
                        Math_min (Fin 0.9) (num (length anomalies) / num (length data) * Fin 5),
                      description =
                        string_of_nat (length anomalies) @ '' anomalous values detected in '' @ column,
                      parameters =
                        [(''count'', JNum (num (length anomalies))),
                         (''percentage'',
                            JNum ((num (length anomalies) / num (length data)) * Fin 100)),
                         (''threshold'', JNum threshold), (''mean'', JNum m),
                         (''stdDev'', JNum stdDev)],
                      affectedColumns = [column]\<rparr>]
               else [])
       }) numericColumns)"

text \<open>A failing correlation is caught and the pair skipped.\<close>

definition detectCorrelations :: "lib \<Rightarrow> DataPoint list \<Rightarrow> string list \<Rightarrow> DataPattern list" where
  "detectCorrelations L data numericColumns =
     (if length numericColumns < 2 then []
      else
        concat (map (\<lambda>(i, j).
            let col1 = numericColumns ! i;
                col2 = numericColumns ! j
            in case ss_sampleCorrelation L (column_values data col1) (column_values data col2) of
                 None \<Rightarrow> []
               | Some correlation \<Rightarrow>
                   if \<bar>correlation\<bar> > Fin 0.7
                   then [\<lparr>pattern_type = ''correlation'',
                          confidence = \<bar>correlation\<bar>,
                          description =
                            (if correlation > Fin 0 then ''Positive'' else ''Negative'') @
                            '' correlation between '' @ col1 @ '' and '' @ col2,
                          parameters =
                            [(''correlation'', JNum correlation),
                             (''strength'',
                                JStr (if \<bar>correlation\<bar> > Fin 0.9 then ''very strong'' else ''strong'')),
                             (''direction'',
                                JStr (if correlation > Fin 0 then ''positive'' else ''negative''))],
                          affectedColumns = [col1, col2]\<rparr>]
                   else [])
          (upper_pairs (length numericColumns))))"

text \<open>A failing clustering is caught; \<open>kMeansClustering\<close> returns \<open>{k, silhouetteScore,
  clusterSizes}\<close>.\<close>

definition detectClusters :: "helpers \<Rightarrow> DataPoint list \<Rightarrow> string list \<Rightarrow> DataPattern list" where
  "detectClusters H data numericColumns =
     (if length numericColumns < 2 \<or> length data < 10 then []
      else
        case kMeansClustering H (createMatrix data numericColumns) 3 of
          None \<Rightarrow> []
        | Some (k, silhouetteScore, clusterSizes) \<Rightarrow>
            if silhouetteScore > Fin 0.5
            then [\<lparr>pattern_type = ''cluster'',
                   confidence = silhouetteScore,
                   description = string_of_nat k @ '' distinct clusters found in the data'',
                   parameters =
                     [(''k'', JNum (num k)), (''silhouetteScore'', JNum silhouetteScore),
                      (''clusterSizes'', JArr (map JNum clusterSizes))],
                   affectedColumns = numericColumns\<rparr>]
            else [])"

text \<open>\<open>PatternDetector.autocorrelation\<close>, written with \<open>slice\<close> and \<open>reduce\<close>.\<close>

definition PatternDetector_autocorrelation :: "lib \<Rightarrow> number list \<Rightarrow> nat \<Rightarrow> number option" where
  "PatternDetector_autocorrelation L vals lag =
     (let n = length vals
      in if lag \<ge> n then Some (Fin 0)
         else do {
           m \<leftarrow> ss_mean L vals;
           let numerator =
                 foldl (\<lambda>sum (val, i). sum + (val - m) * (num_at vals (i + lag) - m)) (Fin 0)
                   (zip (take (n - lag) vals) [0..<n - lag]);
           let denominator = foldl (\<lambda>sum val. sum + Math_pow (val - m) 2) (Fin 0) vals;
           Some (if strict_eq denominator (Fin 0) then Fin 0 else numerator / denominator)
         })"

text \<open>\<open>AdvancedPatternDetector.autocorrelation\<close>, which overrides it, written with loops.\<close>

definition AdvancedPatternDetector_autocorrelation :: "lib \<Rightarrow> number list \<Rightarrow> nat \<Rightarrow> number option" where
  "AdvancedPatternDetector_autocorrelation L vals lag =
     (if lag \<ge> length vals then Some (Fin 0)
      else do {
        let n = length vals;
        m \<leftarrow> ss_mean L vals;
        let numerator =
              foldl (\<lambda>acc i. acc + (num_at vals i - m) * (num_at vals (i + lag) - m))
                (Fin 0) [0..<n - lag];
        let denominator =
              foldl (\<lambda>acc i. acc + (num_at vals i - m) * (num_at vals i - m)) (Fin 0) [0..<n];
        Some (if strict_eq denominator (Fin 0) then Fin 0 else numerator / denominator)
      })"

text \<open>
  The methods of the base class call \<open>this.autocorrelation\<close> and
  \<open>this.getNumericColumns\<close>: the method of the object at hand, which is an argument here.
  \<open>detectSeasonalityInSeries\<close> returns \<open>{confidence, period, amplitude}\<close>.
\<close>

definition detectSeasonalityInSeries ::
  "lib \<Rightarrow> (number list \<Rightarrow> nat \<Rightarrow> number option) \<Rightarrow> number list \<Rightarrow> (number \<times> nat \<times> number) option" where
  "detectSeasonalityInSeries L this_autocorrelation vals = do {
     let n = length vals;
     let maxPeriod = min (n div 4) 50;
     (bestPeriod, bestCorrelation) \<leftarrow>
       foldM (\<lambda>(bestPeriod, bestCorrelation) period. do {
           correlation \<leftarrow> this_autocorrelation vals period;
           Some (if correlation > bestCorrelation then (period, correlation)
                 else (bestPeriod, bestCorrelation))
         }) (0, Fin 0) [2..<maxPeriod + 1];
     amplitude \<leftarrow> ss_standardDeviation L vals;
     Some (bestCorrelation, bestPeriod, amplitude)
   }"

definition detectSeasonality ::
  "lib \<Rightarrow> (number list \<Rightarrow> nat \<Rightarrow> number option) \<Rightarrow> DataPoint list \<Rightarrow> string list
     \<Rightarrow> DataPattern list option" where
  "detectSeasonality L this_autocorrelation data numericColumns =
     (if length data < 50 then Some []
      else
        map_option concat (mapM (\<lambda>column. do {
            let vals = column_values data column;
            (conf, period, amplitude) \<leftarrow> detectSeasonalityInSeries L this_autocorrelation vals;
            Some (if conf > Fin 0.6
                  then [\<lparr>pattern_type = ''seasonal'',
                         confidence = conf,
                         description =
                           ''Seasonal pattern detected in '' @ column @ '' with period '' @
                           string_of_nat period,
                         parameters = [(''period'', JNum (num period)), (''amplitude'', JNum amplitude)],
                         affectedColumns = [column]\<rparr>]
                  else [])
          }) numericColumns))"

text \<open>The body of \<open>detectPatterns\<close>, for the object whose methods are given.\<close>

definition detectPatterns ::
  "lib \<Rightarrow> helpers \<Rightarrow> (DataPoint list \<Rightarrow> string list) \<Rightarrow> (number list \<Rightarrow> nat \<Rightarrow> number option)
     \<Rightarrow> DataPoint list \<Rightarrow> DataPattern list option" where
  "detectPatterns L H this_getNumericColumns this_autocorrelation data =
     (if length data = 0 then Some []
      else do {
        let numericColumns = this_getNumericColumns data;
        let trends = detectTrends L data numericColumns;
        anomalies \<leftarrow> detectAnomalies L data numericColumns;
        let correlations = detectCorrelations L data numericColumns;
        let clusters = detectClusters H data numericColumns;
        seasonal \<leftarrow> detectSeasonality L this_autocorrelation data numericColumns;
        Some (Array_sort (\<lambda>a b. confidence b - confidence a)
                (trends @ anomalies @ correlations @ clusters @ seasonal))
      })"

text \<open>\<open>detectPatterns\<close> on a \<open>PatternDetector\<close>.\<close>

definition PatternDetector_detectPatterns :: "lib \<Rightarrow> helpers \<Rightarrow> DataPoint list \<Rightarrow> DataPattern list option" where
  "PatternDetector_detectPatterns L H data =
     detectPatterns L H PatternDetector_getNumericColumns (PatternDetector_autocorrelation L) data"

subsection \<open>The advanced detector\<close>

definition getAlgorithmForPatternType :: "string \<Rightarrow> string" where
  "getAlgorithmForPatternType t =
     (case map_of
        [(''trend'', ''linear_regression''),
         (''seasonal'', ''autocorrelation_analysis''),
         (''correlation'', ''pearson_correlation''),
         (''cluster'', ''k_means_clustering''),
         (''anomaly'', ''statistical_outlier_detection'')] t of
        Some a \<Rightarrow> a
      | None \<Rightarrow> ''unknown'')"

definition calculateStatisticalSignificance :: "DataPattern \<Rightarrow> DataPoint list \<Rightarrow> number" where
  "calculateStatisticalSignificance pattern data =
     (let sampleSize = num (length data);
          conf = confidence pattern;
          adjusted = conf * Math_min (Fin 1) (Math_sqrt (sampleSize / Fin 30))
      in Math_max (Fin 0) (Math_min (Fin 1) adjusted))"

text \<open>\<open>pattern.parameters.key || d\<close>, for a key under which the detectors store a number.\<close>

definition parameter_or :: "json obj \<Rightarrow> string \<Rightarrow> number \<Rightarrow> number" where
  "parameter_or params key d =
     (case obj_get params key of
        None \<Rightarrow> d
      | Some (JNum n) \<Rightarrow> or_else n d
      | Some _ \<Rightarrow> NaN)"

definition calculateEffectSize :: "DataPattern \<Rightarrow> DataPoint list \<Rightarrow> number" where
  "calculateEffectSize pattern data =
     (if pattern_type pattern = ''trend''
      then \<bar>parameter_or (parameters pattern) ''slope'' (Fin 0)\<bar> / Fin 10
      else if pattern_type pattern = ''correlation''
      then \<bar>parameter_or (parameters pattern) ''correlation'' (confidence pattern)\<bar>
      else if pattern_type pattern = ''anomaly''
      then parameter_or (parameters pattern) ''count'' (Fin 0) / num (length data)
      else confidence pattern)"

definition enhancePattern :: "DataPattern \<Rightarrow> DataPoint list \<Rightarrow> AdvancedPattern" where
  "enhancePattern basePattern data =
     \<lparr>pattern_type = pattern_type basePattern,
      confidence = confidence basePattern,
      description = description basePattern,
      parameters = parameters basePattern,
      affectedColumns = affectedColumns basePattern,
      algorithm = getAlgorithmForPatternType (pattern_type basePattern),
      statistical_significance = calculateStatisticalSignificance basePattern data,
      effect_size = calculateEffectSize basePattern data,
      metadata =
        [(''sample_size'', JNum (num (length data))),
         (''algorithm_params'', JObj (parameters basePattern))]\<rparr>"

definition detectDistributionPatterns ::
  "helpers \<Rightarrow> DataPoint list \<Rightarrow> string list \<Rightarrow> AdvancedPattern list option" where
  "detectDistributionPatterns H data numericColumns =
     map_option concat (mapM (detectDistributionPatterns_body H data) numericColumns)"

definition detectNonLinearCorrelations ::
  "helpers \<Rightarrow> DataPoint list \<Rightarrow> string list \<Rightarrow> AdvancedPattern list option" where
  "detectNonLinearCorrelations H data numericColumns =
     (if length numericColumns < 2 then Some []
      else
        map_option concat
          (mapM (\<lambda>(i, j).
               detectNonLinearCorrelations_body H data (numericColumns ! i) (numericColumns ! j))
             (upper_pairs (length numericColumns))))"

text \<open>The body of \<open>detectHierarchicalClusters\<close> is one \<open>try\<close> block: it cannot throw.\<close>

definition detectHierarchicalClusters ::
  "helpers \<Rightarrow> DataPoint list \<Rightarrow> string list \<Rightarrow> AdvancedPattern list" where
  "detectHierarchicalClusters H data numericColumns =
     (if length numericColumns < 2 \<or> length data < 10 then []
      else detectHierarchicalClusters_body H data numericColumns)"

definition detectFrequencyPatterns ::
  "helpers \<Rightarrow> DataPoint list \<Rightarrow> string list \<Rightarrow> AdvancedPattern list option" where
  "detectFrequencyPatterns H data numericColumns =
     map_option concat (mapM (detectFrequencyPatterns_body H data) numericColumns)"

definition detectAutogressivePatterns ::
  "helpers \<Rightarrow> DataPoint list \<Rightarrow> string list \<Rightarrow> AdvancedPattern list option" where
  "detectAutogressivePatterns H data numericColumns =
     map_option concat (mapM (detectAutogressivePatterns_body H data) numericColumns)"

definition detectCyclicalPatterns ::
  "helpers \<Rightarrow> DataPoint list \<Rightarrow> string list \<Rightarrow> AdvancedPattern list option" where
  "detectCyclicalPatterns H data numericColumns =
     map_option concat (mapM (detectCyclicalPatterns_body H data) numericColumns)"

definition detectOutlierClusters ::
  "helpers \<Rightarrow> DataPoint list \<Rightarrow> string list \<Rightarrow> AdvancedPattern list option" where
  "detectOutlierClusters H data numericColumns =
     (if length numericColumns < 2 then Some []
      else detectOutlierClusters_body H data numericColumns)"

text \<open>
  The class \<open>AdvancedPatternDetector\<close> declares two methods named
  \<open>detectChangePoints\<close>: the detector \<open>detectChangePoints(data, numericColumns)\<close> and,
  further down, the helper \<open>detectChangePoints(values)\<close>. In a JavaScript class the later
  declaration replaces the earlier one, so the call
  \<open>this.detectChangePoints(data, numericColumns)\<close> in \<open>detectAdvancedPatterns\<close> runs the
  helper, with the records in the place of the values. The helper is modelled below; the
  detector it replaces is never run.
\<close>

record ChangePoint =
  cp_position :: nat
  cp_magnitude :: number
  cp_significance :: number
  cp_direction :: string

definition detectChangePoints :: "lib \<Rightarrow> number list \<Rightarrow> ChangePoint list option" where
  "detectChangePoints L vals = do {
     m \<leftarrow> ss_mean L vals;
     (changePoints, cumsum, maxCumsum, minCumsum) \<leftarrow>
       foldM (\<lambda>(changePoints, cumsum, maxCumsum, minCumsum) i. do {
           let cumsum = cumsum + (num_at vals i - m);
           let maxCumsum = (if cumsum > maxCumsum then cumsum else maxCumsum);
           let minCumsum = (if cumsum < minCumsum then cumsum else minCumsum);
           sd \<leftarrow> ss_standardDeviation L vals;
           let threshold = Fin 3 * sd;
           Some (if \<bar>cumsum\<bar> > threshold
                 then
                   (let magnitude = \<bar>cumsum\<bar> / threshold;
                        significance = Math_min (Fin 1) (magnitude - Fin 1)
                    in if significance > Fin 0.5
                       then (changePoints @
                               [\<lparr>cp_position = i, cp_magnitude = magnitude,
                                 cp_significance = significance,
                                 cp_direction = (if cumsum > Fin 0 then ''increase'' else ''decrease'')\<rparr>],
                             cumsum, maxCumsum, minCumsum)
                       else (changePoints, cumsum, maxCumsum, minCumsum))
                 else (changePoints, cumsum, maxCumsum, minCumsum))
         }) ([], Fin 0, Fin 0, Fin 0) [0..<length vals];
     Some changePoints
   }"

text \<open>
  A record where the helper expects a number: in its arithmetic (\<open>values[i] - mean\<close>) a
  record is NaN, and the statistics library receives an array without a single number.
\<close>

definition records_as_numbers :: "DataPoint list \<Rightarrow> number list" where
  "records_as_numbers data = map (\<lambda>point. NaN) data"

text \<open>
  A change point pushed onto the list of patterns: it has none of a pattern's fields, so its
  \<open>confidence\<close> is \<open>undefined\<close>, NaN in the comparator of the final sort.
\<close>

definition changePoint_as_pattern :: "ChangePoint \<Rightarrow> AdvancedPattern" where
  "changePoint_as_pattern cp =
     \<lparr>pattern_type = '''', confidence = NaN, description = '''', parameters = [],
      affectedColumns = [], algorithm = '''', statistical_significance = NaN, effect_size = NaN,
      metadata =
        [(''position'', JNum (num (cp_position cp))), (''magnitude'', JNum (cp_magnitude cp)),
         (''significance'', JNum (cp_significance cp)), (''direction'', JStr (cp_direction cp))]\<rparr>"

definition detectAdvancedPatterns :: "lib \<Rightarrow> helpers \<Rightarrow> DataPoint list \<Rightarrow> AdvancedPattern list option" where
  "detectAdvancedPatterns L H data =
     (if length data = 0 then Some []
      else do {
        let numericColumns = AdvancedPatternDetector_getNumericColumns data;
        basePatterns \<leftarrow>
          detectPatterns L H AdvancedPatternDetector_getNumericColumns
            (AdvancedPatternDetector_autocorrelation L) data;
        let advancedBasePatterns = map (\<lambda>p. enhancePattern p data) basePatterns;
        distributions \<leftarrow> detectDistributionPatterns H data numericColumns;
        nonLinear \<leftarrow> detectNonLinearCorrelations H data numericColumns;
        let hierarchical = detectHierarchicalClusters H data numericColumns;
        frequencies \<leftarrow> detectFrequencyPatterns H data numericColumns;
        autoregressive \<leftarrow> detectAutogressivePatterns H data numericColumns;
        changePoints \<leftarrow> detectChangePoints L (records_as_numbers data);
        cyclical \<leftarrow> detectCyclicalPatterns H data numericColumns;
        outlierClusters \<leftarrow> detectOutlierClusters H data numericColumns;
        Some (Array_sort (\<lambda>a b. confidence b - confidence a)
                (advancedBasePatterns @ distributions @ nonLinear @ hierarchical @ frequencies @
                 autoregressive @ map changePoint_as_pattern changePoints @ cyclical @
                 outlierClusters))
      })"

text \<open>
  The assumption on the statistics library under which the advanced detector is studied:
  \<open>ss.mean\<close> and \<open>ss.standardDeviation\<close> return on every non-empty array.
\<close>

definition mean_and_deviation_return :: "lib \<Rightarrow> bool" where
  "mean_and_deviation_return L \<longleftrightarrow>
     (\<forall>xs. xs \<noteq> [] \<longrightarrow> ss_mean L xs \<noteq> None \<and> ss_standardDeviation L xs \<noteq> None)"

text \<open>An instance of the helpers in which every loop body throws and no clustering succeeds.\<close>

definition failing_helpers :: helpers where
  "failing_helpers =
     \<lparr>kMeansClustering = (\<lambda>matrix k. None),
      detectDistributionPatterns_body = (\<lambda>data column. None),
      detectNonLinearCorrelations_body = (\<lambda>data col1 col2. None),
      detectHierarchicalClusters_body = (\<lambda>data columns. []),
      detectFrequencyPatterns_body = (\<lambda>data column. None),
      detectAutogressivePatterns_body = (\<lambda>data column. None),
      detectCyclicalPatterns_body = (\<lambda>data column. None),
      detectOutlierClusters_body = (\<lambda>data columns. None)\<rparr>"

text \<open>A dataset of one record whose only field is a string.\<close>

definition text_rows :: "DataPoint list" where
  "text_rows = [\<lparr>dp_id = ''r1'', dp_timestamp = Fin 0, dp_values = [(''name'', VStr ''a'')]\<rparr>]"

section \<open>An instance of the libraries\<close>

text \<open>
  To run the model on concrete inputs the library record needs an instance. In
  \<open>eval_lib\<close> the mean, the variance, the standard deviation and the quantile follow the
  documentation of \<open>simple-statistics\<close> (each throws on an empty sample; the quantile
  reads a sorted sample). The functions that the inputs below never reach always throw, and
  the hashes and the conversions to text are stand-ins. The theorems about the code hold for
  every library; \<open>eval_lib\<close> only serves to evaluate examples.
\<close>

definition model_mean :: "number list \<Rightarrow> number option" where
  "model_mean xs = (if xs = [] then None else Some (foldl (+) (Fin 0) xs / num (length xs)))"

definition model_variance :: "number list \<Rightarrow> number option" where
  "model_variance xs =
     (case model_mean xs of
        None \<Rightarrow> None
      | Some m \<Rightarrow> Some (foldl (\<lambda>s x. s + (x - m) * (x - m)) (Fin 0) xs / num (length xs)))"

definition model_standardDeviation :: "number list \<Rightarrow> number option" where
  "model_standardDeviation xs = map_option Math_sqrt (model_variance xs)"

definition model_quantile :: "number list \<Rightarrow> number \<Rightarrow> number option" where
  "model_quantile xs p =
     (case p of
        Fin q \<Rightarrow>
          (let idx = real (length xs) * q
           in if xs = [] \<or> q < 0 \<or> 1 < q then None
              else if q = 1 then Some (last xs)
              else if q = 0 then Some (hd xs)
              else if of_int \<lfloor>idx\<rfloor> \<noteq> idx then Some (xs ! (nat \<lceil>idx\<rceil> - 1))
              else if even (length xs) then Some ((xs ! (nat \<lfloor>idx\<rfloor> - 1) + xs ! nat \<lfloor>idx\<rfloor>) / Fin 2)
              else Some (xs ! nat \<lfloor>idx\<rfloor>))
      | _ \<Rightarrow> None)"

definition eval_lib :: lib where
  "eval_lib =
     \<lparr>ss_mean = model_mean,
      ss_standardDeviation = model_standardDeviation,
      ss_variance = model_variance,
      ss_quantile = model_quantile,
      ss_sampleCorrelation = (\<lambda>xs ys. None),
      ss_linearRegression = (\<lambda>points. None),
      ss_rSquared = (\<lambda>points line. None),
      sha256_hex = (\<lambda>s. s),
      md5_hex = (\<lambda>s. s),
      JSON_stringify = (\<lambda>j. ''{}''),
      String_of_number = (\<lambda>n. ''0''),
      toFixed = (\<lambda>n digits. ''0'')\<rparr>"

text \<open>A stored fingerprint that carries a given id and similarity vector, and nothing else.\<close>

definition vector_fingerprint :: "string \<Rightarrow> number list \<Rightarrow> PatternFingerprint" where
  "vector_fingerprint name vec =
     \<lparr>fp_id = name, fp_timestamp = 0, data_hash = '''', statistical = [],
      temporal = \<lparr>seasonality_strength = Fin 0, trend_strength = Fin 0, autocorrelation_lags = [],
                  dominant_frequency = Fin 0, periodicity_score = Fin 0, stationarity_score = Fin 0\<rparr>,
      relational = \<lparr>correlation_matrix_hash = '''', principal_components = [],
                    dependency_strength = Fin 0, mutual_information = [], network_centrality = []\<rparr>,
      anomaly = \<lparr>outlier_positions = [], outlier_severity = [], anomaly_density = Fin 0,
                 temporal_anomaly_clusters = [], anomaly_signature = ''''\<rparr>,
      pattern_types = [], confidence_scores = [], similarity_vector = vec\<rparr>"

text \<open>Two records: \<open>x\<close> is a number in both, \<open>y\<close> a string, \<open>z\<close> is NaN in the
  first, and \<open>w\<close> is a number that only the second record has.\<close>

definition example_rows :: "DataPoint list" where
  "example_rows =
     [\<lparr>dp_id = ''r1'', dp_timestamp = Fin 0,
       dp_values = [(''x'', VNum (Fin 1)), (''y'', VStr ''s''), (''z'', VNum NaN)]\<rparr>,
      \<lparr>dp_id = ''r2'', dp_timestamp = Fin 1,
       dp_values = [(''x'', VNum (Fin 2)), (''y'', VStr ''t''), (''z'', VNum (Fin 3)),
                    (''w'', VNum (Fin 5))]\<rparr>]"


section \<open>Notions used in the statements\<close>

text \<open>
  The three sums that the loop of \<open>calculateSimilarity\<close> accumulates, each on its own:
  the dot product of two vectors and the squared norm of a vector; the norm is its square
  root, as the code takes it.
\<close>

definition dot_product :: "number list \<Rightarrow> number list \<Rightarrow> number" where
  "dot_product v w = foldl (\<lambda>s (x, y). s + x * y) (Fin 0) (zip v w)"

definition squared_norm :: "number list \<Rightarrow> number" where
  "squared_norm v = foldl (\<lambda>s x. s + x * x) (Fin 0) v"

definition vector_norm :: "number list \<Rightarrow> number" where
  "vector_norm v = Math_sqrt (squared_norm v)"


section \<open>Auxiliary facts\<close>

lemma map_option_bind_fun:
  "map_option f (Option.bind x g) = Option.bind x (\<lambda>y. map_option f (g y))"
  by (cases x) simp_all

lemma set_Object_entries: "set (Object_entries ob) = set ob"
  by (auto simp: Object_entries_def)

lemma set_Object_keys: "set (Object_keys ob) = fst ` set ob"
  by (simp add: Object_keys_def set_Object_entries)

lemma is_numeric_value_iff:
  "is_numeric_value v \<longleftrightarrow> (\<exists>n. v = Some (VNum n) \<and> n \<noteq> NaN)"
  by (auto simp: is_numeric_value_def isNaN_def split: option.splits jsvalue.splits)

subsection \<open>Decimal digits are injective\<close>

lemma digit_char_inj: "d < 10 \<Longrightarrow> e < 10 \<Longrightarrow> digit_char d = digit_char e \<Longrightarrow> d = e"
proof -
  assume d: "d < 10" and e: "e < 10" and eq: "digit_char d = digit_char e"
  from eq have "(of_char (digit_char d) :: nat) = of_char (digit_char e)" by simp
  with d e show "d = e" by (simp add: digit_char_def)
qed

lemma string_of_nat_nonempty: "string_of_nat n \<noteq> []"
  by (subst string_of_nat.simps) simp

lemma string_of_nat_inj: "string_of_nat n = string_of_nat m \<Longrightarrow> n = m"
proof (induction n arbitrary: m rule: string_of_nat.induct)
  case (1 n)
  show ?case
  proof (cases "n < 10")
    case True
    with "1.prems" have eq: "[digit_char n] = string_of_nat m"
      by (subst (asm) string_of_nat.simps) simp
    show ?thesis
    proof (cases "m < 10")
      case True
      with eq have "digit_char n = digit_char m" by (subst (asm) string_of_nat.simps) simp
      with \<open>n < 10\<close> True show ?thesis by (rule digit_char_inj)
    next
      case False
      with eq have "[digit_char n] = string_of_nat (m div 10) @ [digit_char (m mod 10)]"
        by (subst (asm) string_of_nat.simps) simp
      then show ?thesis using string_of_nat_nonempty[of "m div 10"] by simp
    qed
  next
    case False
    with "1.prems" have eq: "string_of_nat (n div 10) @ [digit_char (n mod 10)] = string_of_nat m"
      by (subst (asm) string_of_nat.simps) simp
    show ?thesis
    proof (cases "m < 10")
      case True
      with eq have "string_of_nat (n div 10) @ [digit_char (n mod 10)] = [digit_char m]"
        by (subst (asm) (2) string_of_nat.simps) simp
      then show ?thesis using string_of_nat_nonempty[of "n div 10"] by simp
    next
      case mf: False
      with eq have "string_of_nat (n div 10) @ [digit_char (n mod 10)] =
          string_of_nat (m div 10) @ [digit_char (m mod 10)]"
        by (subst (asm) (2) string_of_nat.simps) simp
      then have a: "string_of_nat (n div 10) = string_of_nat (m div 10)"
        and b: "digit_char (n mod 10) = digit_char (m mod 10)" by simp_all
      from "1.IH"[OF False a] have "n div 10 = m div 10" .
      moreover from b have "n mod 10 = m mod 10" by (intro digit_char_inj) simp_all
      ultimately show ?thesis by (metis div_mult_mod_eq)
    qed
  qed
qed

lemma string_of_nat_0: "string_of_nat 0 = ''0''"
  by code_simp

lemma string_of_nat_1: "string_of_nat 1 = ''1''"
  by code_simp

lemma string_of_nat_2: "string_of_nat 2 = ''2''"
  by code_simp

lemma string_of_nat_Suc_0: "string_of_nat (Suc 0) = ''1''"
  using string_of_nat_1 by simp

subsection \<open>The clock in generateFingerprint\<close>

text \<open>
  The two readings of the clock reach the fields \<open>id\<close> and \<open>timestamp\<close> and nothing
  else: any two runs on the same data and patterns differ by an update of these two fields.
\<close>

lemma generateFingerprint_clock:
  "generateFingerprint L t1 t2 D P i =
     map_option
       (\<lambda>f. f\<lparr>fp_id := ''fingerprint_'' @ i @ ''_'' @ string_of_nat t1, fp_timestamp := t2\<rparr>)
       (generateFingerprint L t1' t2' D P i')"
proof -
  define G where "G = (\<lambda>s t r an pt. generateSimilarityVector L
     \<lparr>fp_id = [], fp_timestamp = 0, data_hash = [], statistical = s, temporal = t, relational = r,
      anomaly = an, pattern_types = pt, confidence_scores = [], similarity_vector = []\<rparr>)"
  have gsv: "generateSimilarityVector L
     \<lparr>fp_id = a, fp_timestamp = b, data_hash = h, statistical = s, temporal = t, relational = r,
      anomaly = an, pattern_types = pt, confidence_scores = cs, similarity_vector = v\<rparr> =
     G s t r an pt"
    for a b h s t r an pt cs v
    by (simp add: G_def generateSimilarityVector_def)
  show ?thesis
    unfolding generateFingerprint_def Let_def
    by (simp add: gsv map_option_bind_fun cong: Option.bind_cong)
qed

lemma generateFingerprint_id:
  assumes "generateFingerprint L t1 t2 D P i = Some f"
  shows "fp_id f = ''fingerprint_'' @ i @ ''_'' @ string_of_nat t1 \<and> fp_timestamp f = t2"
proof -
  let ?u = "\<lambda>f. f\<lparr>fp_id := ''fingerprint_'' @ i @ ''_'' @ string_of_nat t1, fp_timestamp := t2\<rparr>"
  from generateFingerprint_clock[of L t1 t2 D P i t1 t2 i] assms
  have eq: "f = ?u f" by simp
  have "fp_id f = fp_id (?u f)" "fp_timestamp f = fp_timestamp (?u f)"
    using eq by (rule arg_cong)+
  then show ?thesis by simp
qed

text \<open>The fingerprint of the empty dataset with no patterns, under \<open>eval_lib\<close>.\<close>

lemma generateFingerprint_empty:
  "generateFingerprint eval_lib t1 t2 [] [] i =
   Some \<lparr>fp_id = ''fingerprint_'' @ i @ ''_'' @ string_of_nat t1, fp_timestamp = t2,
      data_hash = ''{}'', statistical = [],
      temporal = \<lparr>seasonality_strength = Fin 0, trend_strength = Fin 0, autocorrelation_lags = [],
                  dominant_frequency = Fin 0, periodicity_score = Fin 0, stationarity_score = Fin 0\<rparr>,
      relational = \<lparr>correlation_matrix_hash = '''', principal_components = [],
                    dependency_strength = Fin 0, mutual_information = [], network_centrality = []\<rparr>,
      anomaly = \<lparr>outlier_positions = [], outlier_severity = [], anomaly_density = Fin 0,
                 temporal_anomaly_clusters = [], anomaly_signature = ''{}''\<rparr>,
      pattern_types = [], confidence_scores = [], similarity_vector = replicate 13 (Fin 0)\<rparr>"
  by (simp add: generateFingerprint_def computeDataHash_def getNumericColumns_def
      generateTemporalFingerprint_def generateRelationalFingerprint_def generateAnomalyFingerprint_def
      findAnomalyClusters_def createAnomalySignature_def eval_lib_def extractConfidenceScores_def
      generateSimilarityVector_def Object_entries_def numeral_eq_Suc)

subsection \<open>The fingerprint of a dataset with one numeric field\<close>

text \<open>
  \<open>example_rows\<close> has two records and the one numeric field \<open>x\<close> = 1, 2. With the library
  instance \<open>eval_lib\<close> the generator returns a fingerprint: one statistical signature (mean
  1.5, quartiles 1, 1.5, 2), no outlier, a similarity vector of \<open>5 + 4 + 2 + 2 + 5\<close> entries.
\<close>

lemma example_rows_columns: "getNumericColumns example_rows = [''x'']"
  by (simp add: getNumericColumns_def example_rows_def is_numeric_value_def obj_get_def
      Object_keys_def Object_entries_def is_array_index_def isNaN_def)

lemma example_rows_values: "column_values example_rows ''x'' = [Fin 1, Fin 2]"
  by (simp add: column_values_def example_rows_def as_number_def obj_get_def)

lemma example_rows_temporal:
  "generateTemporalFingerprint eval_lib example_rows [''x''] =
     Some \<lparr>seasonality_strength = Fin 0, trend_strength = Fin 0, autocorrelation_lags = [],
            dominant_frequency = Fin 0, periodicity_score = Fin 0, stationarity_score = Fin 1\<rparr>"
  by (simp add: generateTemporalFingerprint_def example_rows_values
      calculateSeasonalityStrength_def calculateTrendStrength_def findSignificantLags_def
      findDominantFrequency_def calculatePeriodicityScore_def calculateStationarityScore_def
      Math_min_def num_def upt_conv_Cons)

lemma example_rows_sorted: "Array_sort (\<lambda>a b. a - b) [Fin 1, Fin 2] = [Fin 1, Fin 2]"
  by (simp add: Array_sort_def minus_number_def)

lemma example_rows_anomaly:
  "generateAnomalyFingerprint eval_lib example_rows [''x''] [] =
     Some \<lparr>outlier_positions = [], outlier_severity = [], anomaly_density = Fin 0,
            temporal_anomaly_clusters = [], anomaly_signature = ''{}''\<rparr>"
  by (simp add: generateAnomalyFingerprint_def example_rows_values example_rows_sorted
      eval_lib_def model_quantile_def Let_def minus_number_def scan_outliers_def upt_rec
      numeral_eq_Suc findAnomalyClusters_def createAnomalySignature_def num_def)

lemma example_rows_statistical:
  "\<exists>s. generateStatisticalFingerprint eval_lib [Fin 1, Fin 2] = Some s \<and> mean s = Fin 1.5 \<and>
       quantiles s = [Fin 1, Fin 1.5, Fin 2, Fin 2]"
  by (simp add: generateStatisticalFingerprint_def example_rows_sorted eval_lib_def
      model_quantile_def model_mean_def model_standardDeviation_def model_variance_def Let_def
      num_def)

lemma example_rows_hash: "computeDataHash eval_lib example_rows = ''{}''"
  by (simp add: computeDataHash_def eval_lib_def)

lemma example_rows_fingerprint:
  "\<exists>f. generateFingerprint eval_lib 0 0 example_rows [] ''a'' = Some f \<and>
       data_hash f = ''{}'' \<and> map fst (statistical f) = [''x''] \<and>
       length (similarity_vector f) = 18"
proof -
  obtain s where s: "generateStatisticalFingerprint eval_lib [Fin 1, Fin 2] = Some s"
    using example_rows_statistical by blast
  show ?thesis
    by (simp add: generateFingerprint_def example_rows_columns example_rows_temporal
        generateRelationalFingerprint_def example_rows_anomaly example_rows_values s obj_set_def
        generateSimilarityVector_def Object_entries_def is_array_index_def is_digit_def
        example_rows_hash Let_def)
qed

section \<open>Determinism of the content hash and the statistical signatures\<close>

text \<open>
  Claim C1. Two calls of \<open>generateFingerprint\<close> on the same dataset and the same pattern
  list yield the same content hash (\<open>data_hash\<close>) and the same per-field statistical
  signatures, whatever the clock shows at either call and whatever the caller ids are; if
  one call throws, so does the other.
\<close>

theorem generateFingerprint_hash_statistical_deterministic:
  "map_option data_hash (generateFingerprint L t1 t2 D P i) =
     map_option data_hash (generateFingerprint L t1' t2' D P i') \<and>
   map_option statistical (generateFingerprint L t1 t2 D P i) =
     map_option statistical (generateFingerprint L t1' t2' D P i')"
proof -
  have clock: "generateFingerprint L t1 t2 D P i =
     map_option
       (\<lambda>f. f\<lparr>fp_id := ''fingerprint_'' @ i @ ''_'' @ string_of_nat t1, fp_timestamp := t2\<rparr>)
       (generateFingerprint L t1' t2' D P i')"
    by (rule generateFingerprint_clock)
  show ?thesis
    by (simp add: clock option.map_comp comp_def)
qed

text \<open>
  On the two records of \<open>example_rows\<close>: a call at another clock reading and under another
  caller id has the content hash and the statistical signature (of the one numeric field
  \<open>x\<close>) of the call evaluated in \<open>example_rows_fingerprint\<close>.
\<close>

theorem generateFingerprint_hash_statistical_deterministic_witness:
  "map_option data_hash (generateFingerprint eval_lib 3 4 example_rows [] ''b'') = Some ''{}'' \<and>
   map_option (\<lambda>f. map fst (statistical f))
     (generateFingerprint eval_lib 3 4 example_rows [] ''b'') = Some [''x'']"
proof -
  obtain f where f: "generateFingerprint eval_lib 0 0 example_rows [] ''a'' = Some f"
    and h: "data_hash f = ''{}''" and st: "map fst (statistical f) = [''x'']"
    using example_rows_fingerprint by auto
  from generateFingerprint_hash_statistical_deterministic
         [of eval_lib 3 4 example_rows "[]" "''b''" 0 0 "''a''"]
  have 1: "map_option data_hash (generateFingerprint eval_lib 3 4 example_rows [] ''b'') =
             Some ''{}''"
    and 2: "map_option statistical (generateFingerprint eval_lib 3 4 example_rows [] ''b'') =
             Some (statistical f)"
    by (simp_all add: f h)
  have "map_option (\<lambda>f. map fst (statistical f))
          (generateFingerprint eval_lib 3 4 example_rows [] ''b'') =
        map_option (map fst)
          (map_option statistical (generateFingerprint eval_lib 3 4 example_rows [] ''b''))"
    by (simp add: option.map_comp comp_def)
  with 1 2 st show ?thesis by auto
qed

section \<open>generateFingerprint and the clock\<close>

text \<open>
  Claim C2, as stated: any two invocations of \<open>generateFingerprint\<close> with identical
  dataset, pattern list and id return identical fingerprints, \<open>id\<close> and \<open>timestamp\<close>
  included. It fails: the empty dataset fingerprinted for caller \<open>a\<close> when the clock
  shows 0 and again when it shows 1 gives two different fingerprints.
\<close>

theorem generateFingerprint_pure_counterexample:
  "generateFingerprint eval_lib 0 0 [] [] ''a'' \<noteq> generateFingerprint eval_lib 1 1 [] [] ''a''"
  by (simp add: generateFingerprint_empty string_of_nat_0 string_of_nat_Suc_0)

text \<open>
  Claim C2, amended. \<open>generateFingerprint\<close> is a function of its three inputs and of the
  two clock readings it takes: two invocations with identical inputs return fingerprints that
  agree in every field other than \<open>id\<close> and \<open>timestamp\<close> (or both throw); the
  \<open>id\<close> is \<open>fingerprint_<id>_<reading>\<close> and the \<open>timestamp\<close> is the second
  reading, so the two results are equal exactly when the readings are.
\<close>

theorem generateFingerprint_pure_up_to_clock:
  "generateFingerprint L t1 t2 D P i =
     map_option
       (\<lambda>f. f\<lparr>fp_id := ''fingerprint_'' @ i @ ''_'' @ string_of_nat t1, fp_timestamp := t2\<rparr>)
       (generateFingerprint L t1' t2' D P i) \<and>
   (generateFingerprint L t1 t2 D P i = generateFingerprint L t1' t2' D P i \<longleftrightarrow>
      generateFingerprint L t1 t2 D P i = None \<or> (t1 = t1' \<and> t2 = t2'))"
proof (intro conjI)
  show "generateFingerprint L t1 t2 D P i =
     map_option
       (\<lambda>f. f\<lparr>fp_id := ''fingerprint_'' @ i @ ''_'' @ string_of_nat t1, fp_timestamp := t2\<rparr>)
       (generateFingerprint L t1' t2' D P i)"
    by (rule generateFingerprint_clock)
next
  show "generateFingerprint L t1 t2 D P i = generateFingerprint L t1' t2' D P i \<longleftrightarrow>
      generateFingerprint L t1 t2 D P i = None \<or> (t1 = t1' \<and> t2 = t2')"
  proof (cases "generateFingerprint L t1 t2 D P i")
    case None
    with generateFingerprint_clock[of L t1' t2' D P i t1 t2 i] show ?thesis by simp
  next
    case (Some f)
    show ?thesis
    proof
      assume "generateFingerprint L t1 t2 D P i = generateFingerprint L t1' t2' D P i"
      with Some have "generateFingerprint L t1' t2' D P i = Some f" by simp
      from generateFingerprint_id[OF this] generateFingerprint_id[OF Some]
      have "string_of_nat t1 = string_of_nat t1'" "t2 = t2'" by simp_all
      then show "generateFingerprint L t1 t2 D P i = None \<or> (t1 = t1' \<and> t2 = t2')"
        by (simp add: string_of_nat_inj)
    next
      assume "generateFingerprint L t1 t2 D P i = None \<or> (t1 = t1' \<and> t2 = t2')"
      with Some show "generateFingerprint L t1 t2 D P i = generateFingerprint L t1' t2' D P i"
        by simp
    qed
  qed
qed

theorem generateFingerprint_pure_up_to_clock_witness:
  "map_option fp_id (generateFingerprint eval_lib 1 2 [] [] ''a'') = Some ''fingerprint_a_1'' \<and>
   map_option fp_timestamp (generateFingerprint eval_lib 1 2 [] [] ''a'') = Some 2 \<and>
   generateFingerprint eval_lib 1 2 [] [] ''a'' \<noteq> generateFingerprint eval_lib 0 0 [] [] ''a''"
  using generateFingerprint_pure_up_to_clock[of eval_lib 1 2 "[]" "[]" "''a''" 0 0]
  by (simp add: generateFingerprint_empty string_of_nat_0 string_of_nat_Suc_0)

section \<open>Repeated analysis under one caller id\<close>

text \<open>
  Claim C5, as stated: calling \<open>findSimilarPatterns\<close> twice with the same caller id
  leaves exactly one stored fingerprint. It fails: on a fresh engine, two analyses for caller
  \<open>a\<close>, the first when the clock shows 0 and the second when it shows 1, leave two
  entries.
\<close>

theorem findSimilarPatterns_overwrite_counterexample:
  "map fst (fst (findSimilarPatterns eval_lib 1 1
      (fst (findSimilarPatterns eval_lib 0 0 [] [] [] ''a'' (Fin 0.7))) [] [] ''a'' (Fin 0.7))) =
   [''fingerprint_a_0'', ''fingerprint_a_1'']"
  by (simp add: findSimilarPatterns_def generateFingerprint_empty Map_set_def Let_def
      string_of_nat_0 string_of_nat_Suc_0)

text \<open>
  Claim C5, amended. \<open>findSimilarPatterns\<close> stores the fingerprint it generates under
  the key \<open>fingerprint_<id>_<reading of Date.now()>\<close> (and leaves the store alone when
  the generation throws). Two analyses with the same caller id on a fresh engine leave one
  entry, the second fingerprint in place of the first, exactly when both read the same clock
  value; when the readings differ both fingerprints stay stored, under two keys.
\<close>

theorem findSimilarPatterns_store:
  "fst (findSimilarPatterns L t u S D P i th) =
     (case generateFingerprint L t u D P i of
        None \<Rightarrow> S
      | Some f \<Rightarrow> Map_set (''fingerprint_'' @ i @ ''_'' @ string_of_nat t) f S) \<and>
   (generateFingerprint L t u D P i = Some f \<and> generateFingerprint L t' u' D' P' i = Some f' \<longrightarrow>
      fst (findSimilarPatterns L t' u' (fst (findSimilarPatterns L t u [] D P i th)) D' P' i th') =
        (if t = t' then [(''fingerprint_'' @ i @ ''_'' @ string_of_nat t, f')]
         else [(''fingerprint_'' @ i @ ''_'' @ string_of_nat t, f),
               (''fingerprint_'' @ i @ ''_'' @ string_of_nat t', f')]))"
proof -
  have store: "fst (findSimilarPatterns L t u S D P i th) =
     (case generateFingerprint L t u D P i of
        None \<Rightarrow> S
      | Some f \<Rightarrow> Map_set (''fingerprint_'' @ i @ ''_'' @ string_of_nat t) f S)"
    for t u S D P th
    by (auto simp: findSimilarPatterns_def Let_def dest: generateFingerprint_id
        split: option.splits)
  have "fst (findSimilarPatterns L t' u' (fst (findSimilarPatterns L t u [] D P i th)) D' P' i th') =
        (if t = t' then [(''fingerprint_'' @ i @ ''_'' @ string_of_nat t, f')]
         else [(''fingerprint_'' @ i @ ''_'' @ string_of_nat t, f),
               (''fingerprint_'' @ i @ ''_'' @ string_of_nat t', f')])"
    if "generateFingerprint L t u D P i = Some f" "generateFingerprint L t' u' D' P' i = Some f'"
    using that string_of_nat_inj[of t t'] by (auto simp: store Map_set_def)
  with store show ?thesis by blast
qed

theorem findSimilarPatterns_store_witness:
  "length (fst (findSimilarPatterns eval_lib 0 1
      (fst (findSimilarPatterns eval_lib 0 0 [] [] [] ''a'' (Fin 0.7))) [] [] ''a'' (Fin 0.7))) = 1 \<and>
   length (fst (findSimilarPatterns eval_lib 2 2
      (fst (findSimilarPatterns eval_lib 0 0 [] [] [] ''a'' (Fin 0.7))) [] [] ''a'' (Fin 0.7))) = 2"
proof -
  have g: "generateFingerprint eval_lib t u [] [] ''a'' =
      Some (the (generateFingerprint eval_lib t u [] [] ''a''))" for t u
    by (simp add: generateFingerprint_empty)
  note same = findSimilarPatterns_store[of eval_lib 0 0 "[]" "[]" "[]" "''a''" "Fin 0.7"
      "the (generateFingerprint eval_lib 0 0 [] [] ''a'')" 0 1 "[]" "[]"
      "the (generateFingerprint eval_lib 0 1 [] [] ''a'')" "Fin 0.7",
      THEN conjunct2, THEN mp, OF conjI[OF g g]]
  note other = findSimilarPatterns_store[of eval_lib 0 0 "[]" "[]" "[]" "''a''" "Fin 0.7"
      "the (generateFingerprint eval_lib 0 0 [] [] ''a'')" 2 2 "[]" "[]"
      "the (generateFingerprint eval_lib 2 2 [] [] ''a'')" "Fin 0.7",
      THEN conjunct2, THEN mp, OF conjI[OF g g]]
  show ?thesis
    unfolding same other by simp
qed

section \<open>The numeric columns\<close>

text \<open>
  Claim C10. For a non-empty dataset, the fields that the fingerprint generator and both
  detectors treat as numeric are exactly the keys of the first record whose value in every
  record is of number type and not NaN. Hence a field that the first record lacks is never
  among them, whatever the later records hold, and a field that is NaN in some record is
  excluded.
\<close>

theorem getNumericColumns_exact:
  "set (getNumericColumns (r # rs)) =
     {k \<in> fst ` set (dp_values r).
        \<forall>p \<in> set (r # rs). \<exists>n. obj_get (dp_values p) k = Some (VNum n) \<and> n \<noteq> NaN} \<and>
   PatternDetector_getNumericColumns (r # rs) = getNumericColumns (r # rs) \<and>
   AdvancedPatternDetector_getNumericColumns (r # rs) = getNumericColumns (r # rs) \<and>
   (k \<notin> fst ` set (dp_values r) \<longrightarrow> k \<notin> set (getNumericColumns (r # rs))) \<and>
   ((\<exists>p \<in> set (r # rs). obj_get (dp_values p) k = Some (VNum NaN)) \<longrightarrow>
      k \<notin> set (getNumericColumns (r # rs)))"
proof -
  have exact: "set (getNumericColumns (r # rs)) =
     {k \<in> fst ` set (dp_values r).
        \<forall>p \<in> set (r # rs). \<exists>n. obj_get (dp_values p) k = Some (VNum n) \<and> n \<noteq> NaN}"
    by (auto simp: getNumericColumns_def set_Object_keys list_all_iff is_numeric_value_iff)
  have same: "PatternDetector_getNumericColumns (r # rs) = getNumericColumns (r # rs)"
    "AdvancedPatternDetector_getNumericColumns (r # rs) = getNumericColumns (r # rs)"
    by (simp_all add: getNumericColumns_def PatternDetector_getNumericColumns_def
        AdvancedPatternDetector_getNumericColumns_def)
  have absent: "k \<notin> set (getNumericColumns (r # rs))" if "k \<notin> fst ` set (dp_values r)"
    using that unfolding exact by blast
  have nan: "k \<notin> set (getNumericColumns (r # rs))"
    if "\<exists>p \<in> set (r # rs). obj_get (dp_values p) k = Some (VNum NaN)"
  proof
    assume "k \<in> set (getNumericColumns (r # rs))"
    then have all: "\<forall>p \<in> set (r # rs). \<exists>n. obj_get (dp_values p) k = Some (VNum n) \<and> n \<noteq> NaN"
      unfolding exact by blast
    from that obtain p where p: "p \<in> set (r # rs)" "obj_get (dp_values p) k = Some (VNum NaN)"
      by blast
    from all p(1) obtain n where "obj_get (dp_values p) k = Some (VNum n)" "n \<noteq> NaN" by blast
    with p(2) show False by simp
  qed
  from exact same absent nan show ?thesis by blast
qed

theorem getNumericColumns_exact_witness:
  "getNumericColumns example_rows = [''x''] \<and>
   ''w'' \<notin> set (getNumericColumns example_rows) \<and>
   ''z'' \<notin> set (getNumericColumns example_rows) \<and>
   PatternDetector_getNumericColumns example_rows = [''x''] \<and>
   AdvancedPatternDetector_getNumericColumns example_rows = [''x'']"
proof -
  have rows: "example_rows =
      \<lparr>dp_id = ''r1'', dp_timestamp = Fin 0,
        dp_values = [(''x'', VNum (Fin 1)), (''y'', VStr ''s''), (''z'', VNum NaN)]\<rparr> #
      [\<lparr>dp_id = ''r2'', dp_timestamp = Fin 1,
        dp_values = [(''x'', VNum (Fin 2)), (''y'', VStr ''t''), (''z'', VNum (Fin 3)),
                     (''w'', VNum (Fin 5))]\<rparr>]"
    by (simp add: example_rows_def)
  have cols: "getNumericColumns example_rows = [''x'']"
    by (simp add: rows getNumericColumns_def Object_keys_def Object_entries_def
        is_array_index_def is_digit_def is_numeric_value_def obj_get_def isNaN_def)
  from getNumericColumns_exact[of _ _ "''w''", folded rows]
       getNumericColumns_exact[of _ _ "''z''", folded rows] cols
  show ?thesis
    by (simp add: rows obj_get_def)
qed

section \<open>Cosine similarity\<close>

lemma number_times_commute: "(a::number) * b = b * a"
  by (cases a; cases b) (simp_all add: mult.commute)

lemma foldl_zip_commute:
  "foldl (\<lambda>s (x, y). s + x * y) (acc::number) (zip v w) = foldl (\<lambda>s (x, y). s + x * y) acc (zip w v)"
proof (induction v arbitrary: w acc)
  case Nil
  then show ?case by simp
next
  case (Cons x v)
  show ?case
  proof (cases w)
    case Nil
    then show ?thesis by simp
  next
    case (Cons y w')
    then show ?thesis
      using Cons.IH[of "acc + x * y" w'] by (simp add: number_times_commute[of y x])
  qed
qed

lemma dot_product_commute: "dot_product v w = dot_product w v"
  unfolding dot_product_def by (rule foldl_zip_commute)

lemma similarity_loop:
  "n \<le> length v \<Longrightarrow> n \<le> length w \<Longrightarrow>
   foldl (\<lambda>(dotProduct, norm1, norm2) i.
            let v1 = v ! i; v2 = w ! i
            in (dotProduct + v1 * v2, norm1 + v1 * v1, norm2 + v2 * v2))
     (Fin 0, Fin 0, Fin 0) [0..<n] =
   (dot_product (take n v) (take n w), squared_norm (take n v), squared_norm (take n w))"
proof (induction n)
  case 0
  then show ?case by (simp add: dot_product_def squared_norm_def)
next
  case (Suc n)
  then show ?case
    by (simp add: take_Suc_conv_app_nth dot_product_def squared_norm_def Let_def)
qed

lemma similarity_loop_full:
  assumes "length v = length w"
  shows "foldl (\<lambda>(dotProduct, norm1, norm2) i.
            let v1 = v ! i; v2 = w ! i
            in (dotProduct + v1 * v2, norm1 + v1 * v1, norm2 + v2 * v2))
     (Fin 0, Fin 0, Fin 0) [0..<length v] =
   (dot_product v w, squared_norm v, squared_norm w)"
  using similarity_loop[of "length v" v w] assms by simp

lemma calculateSimilarity_eq:
  "calculateSimilarity a b =
     (if length (similarity_vector a) \<noteq> length (similarity_vector b) then Fin 0
      else if strict_eq (vector_norm (similarity_vector a) * vector_norm (similarity_vector b)) (Fin 0)
      then Fin 0
      else dot_product (similarity_vector a) (similarity_vector b) /
             (vector_norm (similarity_vector a) * vector_norm (similarity_vector b)))"
proof (cases "length (similarity_vector a) = length (similarity_vector b)")
  case True
  show ?thesis
    unfolding calculateSimilarity_def similarity_loop_full[OF True]
    by (simp add: vector_norm_def)
next
  case False
  then show ?thesis by (simp add: calculateSimilarity_def)
qed















subsection \<open>The clustering loops\<close>











text \<open>Three evaluations of \<open>calculateSimilarity\<close>.\<close>

lemma similarity_opposite:
  "calculateSimilarity (vector_fingerprint ''a'' [Fin 1]) (vector_fingerprint ''b'' [Fin (- 1)]) =
     Fin (- 1)"
  by (simp add: calculateSimilarity_def vector_fingerprint_def strict_eq_def Let_def)

lemma similarity_NaN_entry:
  "calculateSimilarity (vector_fingerprint ''a'' [NaN]) (vector_fingerprint ''b'' [Fin 1]) = NaN"
  by (simp add: calculateSimilarity_def vector_fingerprint_def strict_eq_def Let_def)


section \<open>Symmetry of calculateSimilarity\<close>

text \<open>
  Claim C4. For every pair of fingerprints \<open>a\<close> and \<open>b\<close>,
  \<open>calculateSimilarity(a, b) = calculateSimilarity(b, a)\<close>.
\<close>

theorem calculateSimilarity_symmetric: "calculateSimilarity a b = calculateSimilarity b a"
  by (simp add: calculateSimilarity_eq dot_product_commute
      number_times_commute[of "vector_norm (similarity_vector a)"])

theorem calculateSimilarity_symmetric_witness:
  "calculateSimilarity (vector_fingerprint ''b'' [Fin (- 1)]) (vector_fingerprint ''a'' [Fin 1]) =
     Fin (- 1)"
  using calculateSimilarity_symmetric[of "vector_fingerprint ''b'' [Fin (- 1)]"
      "vector_fingerprint ''a'' [Fin 1]"]
  by (simp add: similarity_opposite)

section \<open>Zero similarity on mismatched and zero-norm vectors\<close>




section \<open>Clustering at the extreme thresholds\<close>




section \<open>Export and import of the store\<close>

lemma Map_set_fresh: "k \<notin> fst ` set m \<Longrightarrow> Map_set k v m = m @ [(k, v)]"
  by (simp add: Map_set_def)

lemma obj_set_fresh: "k \<notin> fst ` set ob \<Longrightarrow> obj_set k v ob = ob @ [(k, v)]"
  by (simp add: obj_set_def)

lemma Map_set_distinct:
  assumes "distinct (map fst m)"
  shows "distinct (map fst (Map_set k v m))"
proof (cases "k \<in> fst ` set m")
  case True
  have eq: "map fst (map (\<lambda>(k', v'). if k' = k then (k', v) else (k', v')) m) = map fst m"
    by (induction m) (simp_all add: split_beta)
  from True have "Map_set k v m = map (\<lambda>(k', v'). if k' = k then (k', v) else (k', v')) m"
    by (simp add: Map_set_def)
  then show ?thesis using assms by (simp only: eq)
next
  case False
  with assms show ?thesis
    by (simp add: Map_set_def)
qed

lemma fold_Map_set_distinct:
  "distinct (map fst (acc @ xs)) \<Longrightarrow> foldl (\<lambda>m (k, v). Map_set k v m) acc xs = acc @ xs"
proof (induction xs arbitrary: acc)
  case Nil
  then show ?case by simp
next
  case (Cons x xs)
  obtain k v where x: "x = (k, v)" by (cases x)
  from Cons.prems x have "k \<notin> fst ` set acc" by auto
  then have "Map_set k v acc = acc @ [(k, v)]" by (rule Map_set_fresh)
  moreover from Cons.prems x have "distinct (map fst ((acc @ [(k, v)]) @ xs))" by simp
  ultimately show ?case using Cons.IH[of "acc @ [(k, v)]"] x by simp
qed

lemma fold_obj_set_distinct:
  "distinct (map fst (acc @ xs)) \<Longrightarrow> foldl (\<lambda>ob (k, v). obj_set k v ob) acc xs = acc @ xs"
proof (induction xs arbitrary: acc)
  case Nil
  then show ?case by simp
next
  case (Cons x xs)
  obtain k v where x: "x = (k, v)" by (cases x)
  from Cons.prems x have "k \<notin> fst ` set acc" by auto
  then have "obj_set k v acc = acc @ [(k, v)]" by (rule obj_set_fresh)
  moreover from Cons.prems x have "distinct (map fst ((acc @ [(k, v)]) @ xs))" by simp
  ultimately show ?case using Cons.IH[of "acc @ [(k, v)]"] x by simp
qed

lemma distinct_Object_entries:
  assumes "distinct (map fst ob)"
  shows "distinct (map fst (Object_entries ob))"
proof -
  let ?P = "\<lambda>(k, v). is_array_index k"
  let ?f = "\<lambda>(k, v). nat_of_digits k"
  have d: "distinct ob" using assms by (rule distinct_map[THEN iffD1, THEN conjunct1])
  have inj: "inj_on fst (set ob)" using assms by (simp add: distinct_map)
  have "distinct (Object_entries ob)"
    using d by (auto simp: Object_entries_def)
  moreover have "inj_on fst (set (Object_entries ob))"
    using inj by (simp add: set_Object_entries)
  ultimately show ?thesis by (simp add: distinct_map)
qed

text \<open>Every store that \<open>set\<close> builds from the empty map has distinct keys.\<close>

lemma store_keys_distinct:
  "distinct (map fst (foldl (\<lambda>m (k, v). Map_set k v m) [] ops))"
proof -
  have "distinct (map fst acc) \<Longrightarrow> distinct (map fst (foldl (\<lambda>m (k, v). Map_set k v m) acc ops))"
    for acc :: "(string \<times> 'a) list"
  proof (induction ops arbitrary: acc)
    case Nil
    then show ?case by simp
  next
    case (Cons x ops)
    obtain k v where x: "x = (k, v)" by (cases x)
    from Cons.prems have "distinct (map fst (Map_set k v acc))" by (rule Map_set_distinct)
    from Cons.IH[OF this] x show ?case by simp
  qed
  then show ?thesis by simp
qed

text \<open>
  Claim C8. For every store state \<open>S\<close> (a map: its keys are distinct),
  \<open>importFingerprints(exportFingerprints())\<close> into a fresh engine yields a store with
  exactly the entries of \<open>S\<close>: the same ids mapped to the same fingerprints. The order of
  the entries may differ (an exported object lists array-index keys first), the contents do
  not.
\<close>

theorem export_import_roundtrip:
  assumes "distinct (map fst S)"
  shows "set (importFingerprints [] (exportFingerprints S)) = set S \<and>
         distinct (map fst (importFingerprints [] (exportFingerprints S))) \<and>
         map_of (importFingerprints [] (exportFingerprints S)) = map_of S"
proof -
  have ex: "exportFingerprints S = S"
    using fold_obj_set_distinct[of "[]" S] assms by (simp add: exportFingerprints_def)
  have d: "distinct (map fst (Object_entries S))" using assms by (rule distinct_Object_entries)
  have im: "importFingerprints [] (exportFingerprints S) = Object_entries S"
    using fold_Map_set_distinct[of "[]" "Object_entries S"] d by (simp add: importFingerprints_def ex)
  have "map_of (Object_entries S) = map_of S"
    using d assms by (simp add: map_of_inject_set set_Object_entries)
  with d show ?thesis by (simp add: im set_Object_entries)
qed

theorem export_import_roundtrip_witness:
  "map fst (importFingerprints []
      (exportFingerprints
        [(''b'', vector_fingerprint ''b'' [Fin 1]), (''10'', vector_fingerprint ''10'' [Fin 2]),
         (''2'', vector_fingerprint ''2'' [Fin 3])])) = [''2'', ''10'', ''b''] \<and>
   set (importFingerprints []
      (exportFingerprints
        [(''b'', vector_fingerprint ''b'' [Fin 1]), (''10'', vector_fingerprint ''10'' [Fin 2]),
         (''2'', vector_fingerprint ''2'' [Fin 3])])) =
     {(''b'', vector_fingerprint ''b'' [Fin 1]), (''10'', vector_fingerprint ''10'' [Fin 2]),
      (''2'', vector_fingerprint ''2'' [Fin 3])}"
proof -
  let ?S = "[(''b'', vector_fingerprint ''b'' [Fin 1]), (''10'', vector_fingerprint ''10'' [Fin 2]),
         (''2'', vector_fingerprint ''2'' [Fin 3])]"
  have d: "distinct (map fst ?S)" by simp
  have keys: "map fst (importFingerprints [] (exportFingerprints ?S)) = [''2'', ''10'', ''b'']"
    by (simp add: importFingerprints_def exportFingerprints_def obj_set_def Map_set_def
        Object_entries_def is_array_index_def is_digit_def nat_of_digits_def)
  from export_import_roundtrip[OF d] keys show ?thesis by auto
qed

section \<open>Severity of an outlier\<close>

text \<open>
  For finite values and a positive interquartile range, the recorded severity is the distance
  to the farther fence over the IQR: \<open>Math.max\<close> picks the larger of the two distances,
  and the fences are four IQRs apart. It exceeds the distance beyond the nearer fence, over
  the IQR, by 4.
\<close>

lemma outlier_severity_above_upper:
  assumes "0 < iqr" "u - l = 4 * iqr" "u < v"
  shows "outlier_severity_of (Fin v) (Fin l) (Fin u) (Fin iqr) = Fin ((v - u) / iqr + 4)"
proof -
  from assms have l: "v - l = (v - u) + 4 * iqr" and pos: "0 < v - u" "0 < v - l" by simp_all
  from assms(1) l have "(v - l) / iqr = (v - u) / iqr + 4" by (simp add: field_simps)
  moreover from assms(1) pos l have "\<not> (v - l) / iqr < (v - u) / iqr"
    by (simp add: field_simps)
  ultimately show ?thesis
    using assms(1) pos by (simp add: outlier_severity_of_def Math_max_def minus_number_def)
qed

lemma outlier_severity_below_lower:
  assumes "0 < iqr" "u - l = 4 * iqr" "v < l"
  shows "outlier_severity_of (Fin v) (Fin l) (Fin u) (Fin iqr) = Fin ((l - v) / iqr + 4)"
proof -
  from assms have u: "u - v = (l - v) + 4 * iqr" and pos: "0 < l - v" "0 < u - v" by simp_all
  from assms(1) u have eq: "(u - v) / iqr = (l - v) / iqr + 4" by (simp add: field_simps)
  from assms(1) pos u have less: "(l - v) / iqr < (u - v) / iqr"
    by (simp add: field_simps)
  have a: "\<bar>v - l\<bar> = l - v" "\<bar>v - u\<bar> = u - v" using pos by simp_all
  show ?thesis
    using assms(1) less eq
    by (simp add: outlier_severity_of_def Math_max_def minus_number_def a)
qed








section \<open>Detectors on a dataset without numeric columns\<close>

lemma number_plus_NaN: "x + NaN = NaN"
  by (cases x) simp_all

lemma number_less_NaN: "\<not> x < NaN"
  by (cases x) simp_all

lemma detectPatterns_no_columns:
  assumes "this_getNumericColumns data = []"
  shows "detectPatterns L H this_getNumericColumns this_autocorrelation data = Some []"
  using assms
  by (simp add: detectPatterns_def detectTrends_def detectAnomalies_def detectCorrelations_def
      detectClusters_def detectSeasonality_def Array_sort_def)

lemma detectPatterns_empty:
  "detectPatterns L H this_getNumericColumns this_autocorrelation [] = Some []"
  by (simp add: detectPatterns_def)

lemma changePoints_loop:
  assumes sd: "ss_standardDeviation L vals \<noteq> None"
    and nan: "\<forall>i\<in>set idx. num_at vals i = NaN"
  shows "\<exists>c mx mn.
     foldM (\<lambda>(changePoints, cumsum, maxCumsum, minCumsum) i. do {
           let cumsum = cumsum + (num_at vals i - m);
           let maxCumsum = (if cumsum > maxCumsum then cumsum else maxCumsum);
           let minCumsum = (if cumsum < minCumsum then cumsum else minCumsum);
           sd \<leftarrow> ss_standardDeviation L vals;
           let threshold = Fin 3 * sd;
           Some (if \<bar>cumsum\<bar> > threshold
                 then
                   (let magnitude = \<bar>cumsum\<bar> / threshold;
                        significance = Math_min (Fin 1) (magnitude - Fin 1)
                    in if significance > Fin 0.5
                       then (changePoints @
                               [\<lparr>cp_position = i, cp_magnitude = magnitude,
                                 cp_significance = significance,
                                 cp_direction = (if cumsum > Fin 0 then ''increase'' else ''decrease'')\<rparr>],
                             cumsum, maxCumsum, minCumsum)
                       else (changePoints, cumsum, maxCumsum, minCumsum))
                 else (changePoints, cumsum, maxCumsum, minCumsum))
         }) ([], c0, mx0, mn0) idx = Some ([], c, mx, mn)"
  using nan
proof (induction idx arbitrary: c0 mx0 mn0)
  case Nil
  then show ?case by simp
next
  case (Cons i idx)
  from sd obtain s where s: "ss_standardDeviation L vals = Some s" by auto
  from Cons.prems have i: "num_at vals i = NaN" by simp
  from Cons.prems have rest: "\<forall>i\<in>set idx. num_at vals i = NaN" by simp
  show ?case
    using Cons.IH[OF rest]
    by (simp add: s i minus_number_def number_plus_NaN number_less_NaN)
qed

lemma detectChangePoints_records:
  assumes "mean_and_deviation_return L" "data \<noteq> []"
  shows "detectChangePoints L (records_as_numbers data) = Some []"
proof -
  let ?vals = "records_as_numbers data"
  from assms have ne: "?vals \<noteq> []" by (simp add: records_as_numbers_def)
  with assms(1) obtain m where m: "ss_mean L ?vals = Some m"
    unfolding mean_and_deviation_return_def by blast
  from ne assms(1) have sd: "ss_standardDeviation L ?vals \<noteq> None"
    unfolding mean_and_deviation_return_def by blast
  have nan: "\<forall>i\<in>set [0..<length ?vals]. num_at ?vals i = NaN"
    by (simp add: records_as_numbers_def num_at_def)
  from changePoints_loop[OF sd nan, of m "Fin 0" "Fin 0" "Fin 0"]
  show ?thesis
    unfolding detectChangePoints_def by (auto simp: m)
qed

lemma detectAdvancedPatterns_no_columns:
  assumes "mean_and_deviation_return L" "AdvancedPatternDetector_getNumericColumns data = []"
  shows "detectAdvancedPatterns L H data = Some []"
proof (cases "data = []")
  case True
  then show ?thesis by (simp add: detectAdvancedPatterns_def)
next
  case False
  with assms show ?thesis
    by (simp add: detectAdvancedPatterns_def detectPatterns_no_columns
        detectDistributionPatterns_def detectNonLinearCorrelations_def
        detectHierarchicalClusters_def detectFrequencyPatterns_def
        detectAutogressivePatterns_def detectCyclicalPatterns_def detectOutlierClusters_def
        detectChangePoints_records Array_sort_def)
qed

lemma detectAdvancedPatterns_empty: "detectAdvancedPatterns L H [] = Some []"
  by (simp add: detectAdvancedPatterns_def)

lemma eval_lib_returns: "mean_and_deviation_return eval_lib"
  by (simp add: mean_and_deviation_return_def eval_lib_def model_mean_def
      model_standardDeviation_def model_variance_def)

lemma text_rows_columns: "getNumericColumns text_rows = []"
  by (simp add: text_rows_def getNumericColumns_def Object_keys_def Object_entries_def
      is_array_index_def is_digit_def is_numeric_value_def obj_get_def)

text \<open>
  Claim C9. For every dataset that is empty or has no numeric fields, \<open>detectPatterns\<close>
  and \<open>detectAdvancedPatterns\<close> return the empty pattern list and do not throw. This
  holds whatever the loop bodies and the clustering do, since none of them runs. On a
  non-empty dataset \<open>detectAdvancedPatterns\<close> still runs the change-point helper over the
  records; there the result rests on \<open>ss.mean\<close> and \<open>ss.standardDeviation\<close> returning
  on a non-empty array, as the library does.
\<close>

theorem detectors_without_numeric_columns:
  "(data = [] \<longrightarrow>
      PatternDetector_detectPatterns L H data = Some [] \<and> detectAdvancedPatterns L H data = Some []) \<and>
   (getNumericColumns data = [] \<longrightarrow>
      PatternDetector_detectPatterns L H data = Some [] \<and>
      (mean_and_deviation_return L \<longrightarrow> detectAdvancedPatterns L H data = Some []))"
proof -
  have same: "PatternDetector_getNumericColumns data = getNumericColumns data"
    "AdvancedPatternDetector_getNumericColumns data = getNumericColumns data"
    by (simp_all add: getNumericColumns_def PatternDetector_getNumericColumns_def
        AdvancedPatternDetector_getNumericColumns_def)
  show ?thesis
    by (auto simp: PatternDetector_detectPatterns_def detectPatterns_empty
        detectPatterns_no_columns detectAdvancedPatterns_no_columns same
        detectAdvancedPatterns_empty)
qed

theorem detectors_without_numeric_columns_witness:
  "PatternDetector_detectPatterns eval_lib failing_helpers text_rows = Some [] \<and>
   detectAdvancedPatterns eval_lib failing_helpers text_rows = Some [] \<and>
   PatternDetector_detectPatterns eval_lib failing_helpers [] = Some [] \<and>
   detectAdvancedPatterns eval_lib failing_helpers [] = Some []"
  using detectors_without_numeric_columns[of text_rows eval_lib failing_helpers] detectors_without_numeric_columns[of "[]" eval_lib failing_helpers]
    eval_lib_returns text_rows_columns
  by simp

end
